theory Spec2Isabelle
  imports Complex_Main "HOL-Library.Word" "HOL-Library.State_Monad"
begin

section \<open>JavaScript numbers\<close>

text \<open>
  A JavaScript \<^verbatim>\<open>number\<close> is a double: a finite value, one of the two infinities,
  or NaN. The model keeps these four kinds apart and computes on the finite values with
  exact real arithmetic; rounding (also the rounding to single precision of a store into
  a \<^verbatim>\<open>Float32Array\<close>) and the sign of zero are not modelled. What is
  modelled is what the code below can observe: a division by zero gives NaN or an
  infinity (never 0), every comparison with NaN is false, and NaN propagates through
  arithmetic, \<^verbatim>\<open>Math.sqrt\<close>, \<^verbatim>\<open>Math.min\<close> and \<^verbatim>\<open>Math.max\<close>.
  Every denominator in the modelled code is a length, a length minus one or a value
  guarded to be positive, so a zero denominator is always \<^verbatim>\<open>+0\<close>.
\<close>

datatype number = NaN | NegInf | Fin real | PosInf

fun jneg :: "number \<Rightarrow> number" where
  "jneg NaN = NaN"
| "jneg NegInf = PosInf"
| "jneg (Fin a) = Fin (- a)"
| "jneg PosInf = NegInf"

fun jadd :: "number \<Rightarrow> number \<Rightarrow> number" where
  "jadd NaN _ = NaN"
| "jadd _ NaN = NaN"
| "jadd (Fin a) (Fin b) = Fin (a + b)"
| "jadd PosInf NegInf = NaN"
| "jadd NegInf PosInf = NaN"
| "jadd PosInf _ = PosInf"
| "jadd _ PosInf = PosInf"
| "jadd NegInf _ = NegInf"
| "jadd _ NegInf = NegInf"

definition jsub :: "number \<Rightarrow> number \<Rightarrow> number" where
  "jsub a b = jadd a (jneg b)"

text \<open>The sign of a non-NaN number: \<open>-1\<close>, \<open>0\<close> or \<open>1\<close>.\<close>

fun jsign :: "number \<Rightarrow> int" where
  "jsign NaN = 0"
| "jsign NegInf = - 1"
| "jsign (Fin a) = (if a < 0 then - 1 else if a = 0 then 0 else 1)"
| "jsign PosInf = 1"

definition inf_of_sign :: "int \<Rightarrow> number" where
  "inf_of_sign s = (if s = 0 then NaN else if s < 0 then NegInf else PosInf)"

fun jmul :: "number \<Rightarrow> number \<Rightarrow> number" where
  "jmul NaN _ = NaN"
| "jmul _ NaN = NaN"
| "jmul (Fin a) (Fin b) = Fin (a * b)"
| "jmul a b = inf_of_sign (jsign a * jsign b)"

fun jdiv :: "number \<Rightarrow> number \<Rightarrow> number" where
  "jdiv NaN _ = NaN"
| "jdiv _ NaN = NaN"
| "jdiv (Fin a) (Fin b) = (if b = 0 then inf_of_sign (jsign (Fin a)) else Fin (a / b))"
| "jdiv (Fin a) _ = Fin 0"
| "jdiv a (Fin b) = inf_of_sign (jsign a * (if b < 0 then - 1 else 1))"
| "jdiv _ _ = NaN"

fun jsqrt :: "number \<Rightarrow> number" where
  "jsqrt (Fin a) = (if a < 0 then NaN else Fin (sqrt a))"
| "jsqrt PosInf = PosInf"
| "jsqrt _ = NaN"

fun jcos :: "number \<Rightarrow> number" where
  "jcos (Fin a) = Fin (cos a)"
| "jcos _ = NaN"

fun jlt :: "number \<Rightarrow> number \<Rightarrow> bool" where
  "jlt NaN _ = False"
| "jlt _ NaN = False"
| "jlt (Fin a) (Fin b) = (a < b)"
| "jlt _ NegInf = False"
| "jlt NegInf _ = True"
| "jlt PosInf _ = False"
| "jlt _ PosInf = True"

definition jgt :: "number \<Rightarrow> number \<Rightarrow> bool" where
  "jgt a b = jlt b a"

definition jge :: "number \<Rightarrow> number \<Rightarrow> bool" where
  "jge a b = (a \<noteq> NaN \<and> b \<noteq> NaN \<and> \<not> jlt a b)"

text \<open>\<^verbatim>\<open>Math.min\<close> and \<^verbatim>\<open>Math.max\<close> of two arguments.\<close>

definition jmin :: "number \<Rightarrow> number \<Rightarrow> number" where
  "jmin a b = (if a = NaN \<or> b = NaN then NaN else if jlt b a then b else a)"

definition jmax :: "number \<Rightarrow> number \<Rightarrow> number" where
  "jmax a b = (if a = NaN \<or> b = NaN then NaN else if jlt a b then b else a)"

text \<open>The statement \<^verbatim>\<open>if (c) x += v;\<close>.\<close>

definition addIf :: "bool \<Rightarrow> number \<Rightarrow> number \<Rightarrow> number" where
  "addIf c x v = (if c then jadd x v else x)"

section \<open>Shared types (types/index.ts)\<close>

text \<open>\<^verbatim>\<open>BEFASTAnswers\<close>: five answers, each \<^verbatim>\<open>boolean | null\<close>.\<close>

record BEFASTAnswers =
  balance :: "bool option"
  eyes :: "bool option"
  face :: "bool option"
  arms :: "bool option"
  speech :: "bool option"

datatype question = Balance | Eyes | Face | Arms | Speech

text \<open>\<^verbatim>\<open>Object.values\<close> lists the answers in the order of the keys.\<close>

definition Object_values :: "BEFASTAnswers \<Rightarrow> bool option list" where
  "Object_values a = [balance a, eyes a, face a, arms a, speech a]"

text \<open>The store's \<^verbatim>\<open>updateBEFASTAnswer\<close>: \<^verbatim>\<open>{...state.befastAnswers, [question]: answer}\<close>.\<close>

fun updateBEFASTAnswer :: "question \<Rightarrow> bool \<Rightarrow> BEFASTAnswers \<Rightarrow> BEFASTAnswers" where
  "updateBEFASTAnswer Balance v a = a\<lparr>balance := Some v\<rparr>"
| "updateBEFASTAnswer Eyes v a = a\<lparr>eyes := Some v\<rparr>"
| "updateBEFASTAnswer Face v a = a\<lparr>face := Some v\<rparr>"
| "updateBEFASTAnswer Arms v a = a\<lparr>arms := Some v\<rparr>"
| "updateBEFASTAnswer Speech v a = a\<lparr>speech := Some v\<rparr>"

fun answerOf :: "question \<Rightarrow> BEFASTAnswers \<Rightarrow> bool option" where
  "answerOf Balance a = balance a"
| "answerOf Eyes a = eyes a"
| "answerOf Face a = face a"
| "answerOf Arms a = arms a"
| "answerOf Speech a = speech a"

record FaceAnalysisResult =
  asymmetry :: number
  face_confidence :: number
  face_timestamp :: number
  landmarks :: "(number \<times> number \<times> number) list option"

text \<open>
  \<^verbatim>\<open>SpeechAnalysisResult\<close>. The transcription is \<open>None\<close> where JavaScript would
  hold \<^verbatim>\<open>undefined\<close> (an array read out of range).
\<close>

record SpeechAnalysisResult =
  confidence :: number
  isSlurred :: bool
  transcription :: "string option"
  timestamp :: number

datatype level = LOW | MEDIUM | HIGH

text \<open>
  The entries of \<^verbatim>\<open>factors\<close> are template strings; each constructor stands for one
  template and carries the values interpolated into it.
\<close>

datatype factor =
    PositiveBEFAST nat  \<comment> \<open>\<^verbatim>\<open>`${n} positive BEFAST symptom(s) detected`\<close>\<close>
  | DetectedBEFAST nat  \<comment> \<open>\<^verbatim>\<open>`${n} BEFAST symptom(s) detected`\<close>\<close>
  | HighAsymmetry number  \<comment> \<open>\<^verbatim>\<open>`High facial asymmetry (${asymmetry.toFixed(1)}%)`\<close>\<close>
  | SevereAsymmetry number  \<comment> \<open>\<^verbatim>\<open>`Severe facial asymmetry (${asymmetry.toFixed(1)}%)`\<close>\<close>
  | ModerateAsymmetry number  \<comment> \<open>\<^verbatim>\<open>`Moderate facial asymmetry (${asymmetry.toFixed(1)}%)`\<close>\<close>
  | SlurredSpeech  \<comment> \<open>\<^verbatim>\<open>'Slurred speech detected'\<close>\<close>
  | LowConfidence  \<comment> \<open>\<^verbatim>\<open>'Low speech recognition confidence'\<close>\<close>

record AIRiskScore =
  score :: int
  level :: level
  factors :: "factor list"
  risk_timestamp :: number

section \<open>Risk scoring (services/aiAdvisor.ts)\<close>

record AnalysisData =
  befastAnswers :: BEFASTAnswers
  faceAnalysis :: "FaceAnalysisResult option"
  speechAnalysis :: "SpeechAnalysisResult option"

text \<open>
  The score is a sum of the integer literals 20, 30, 15, 25 and 10, at most 165, so it
  is an exact integer in a double as well; it is modelled as \<open>int\<close>.
\<close>

definition positiveBEFAST :: "BEFASTAnswers \<Rightarrow> nat" where
  "positiveBEFAST a = length (filter (\<lambda>answer. answer = Some True) (Object_values a))"

text \<open>
  \<^verbatim>\<open>calculateLocally\<close>, lines 109 to 143: the local variables \<^verbatim>\<open>score\<close> and
  \<^verbatim>\<open>factors\<close> after the three scoring blocks.
\<close>

definition befastScoring :: "BEFASTAnswers \<Rightarrow> int \<times> factor list \<Rightarrow> int \<times> factor list" where
  "befastScoring a = (\<lambda>(score, factors).
     if positiveBEFAST a > 0
     then (score + int (positiveBEFAST a) * 20, factors @ [PositiveBEFAST (positiveBEFAST a)])
     else (score, factors))"

definition faceScoring :: "FaceAnalysisResult option \<Rightarrow> int \<times> factor list \<Rightarrow> int \<times> factor list" where
  "faceScoring fa = (\<lambda>(score, factors).
     case fa of
       None \<Rightarrow> (score, factors)
     | Some f \<Rightarrow>
         if jgt (asymmetry f) (Fin 30) then (score + 30, factors @ [HighAsymmetry (asymmetry f)])
         else if jgt (asymmetry f) (Fin 15) then (score + 15, factors @ [ModerateAsymmetry (asymmetry f)])
         else (score, factors))"

definition speechScoring :: "SpeechAnalysisResult option \<Rightarrow> int \<times> factor list \<Rightarrow> int \<times> factor list" where
  "speechScoring sa = (\<lambda>(score, factors).
     case sa of
       None \<Rightarrow> (score, factors)
     | Some s \<Rightarrow>
         let (score, factors) =
               (if isSlurred s then (score + 25, factors @ [SlurredSpeech]) else (score, factors))
         in if jlt (confidence s) (Fin 0.7) then (score + 10, factors @ [LowConfidence])
            else (score, factors))"

definition rawLocally :: "AnalysisData \<Rightarrow> int \<times> factor list" where
  "rawLocally data =
     speechScoring (speechAnalysis data)
       (faceScoring (faceAnalysis data)
         (befastScoring (befastAnswers data) (0, [])))"

text \<open>\<^verbatim>\<open>calculateLocally\<close>; \<open>now\<close> is the value of \<^verbatim>\<open>Date.now()\<close>.\<close>

definition calculateLocally :: "AnalysisData \<Rightarrow> number \<Rightarrow> AIRiskScore" where
  "calculateLocally data now =
     (let (score, factors) = rawLocally data;
          level = (if score \<ge> 70 then HIGH else if score \<ge> 40 then MEDIUM else LOW)
      in \<lparr>score = min score 100, level = level, factors = factors, risk_timestamp = now\<rparr>)"

section \<open>The score of the assessment page (calculateScore)\<close>

record scoreCard =
  ui_score :: int
  ui_level :: level
  ui_color :: string
  ui_factors :: "factor list"

definition ui_befastScoring :: "BEFASTAnswers \<Rightarrow> int \<times> factor list \<Rightarrow> int \<times> factor list" where
  "ui_befastScoring a = (\<lambda>(score, factors).
     if positiveBEFAST a > 0
     then (score + int (positiveBEFAST a) * 20, factors @ [DetectedBEFAST (positiveBEFAST a)])
     else (score, factors))"

definition ui_faceScoring :: "FaceAnalysisResult option \<Rightarrow> int \<times> factor list \<Rightarrow> int \<times> factor list" where
  "ui_faceScoring fa = (\<lambda>(score, factors).
     case fa of
       None \<Rightarrow> (score, factors)
     | Some f \<Rightarrow>
         if jgt (asymmetry f) (Fin 15) then (score + 25, factors @ [SevereAsymmetry (asymmetry f)])
         else if jgt (asymmetry f) (Fin 10) then (score + 15, factors @ [ModerateAsymmetry (asymmetry f)])
         else (score, factors))"

text \<open>
  \<^verbatim>\<open>calculateScore\<close> reads \<^verbatim>\<open>befastAnswers\<close>, \<^verbatim>\<open>analysisResults.face\<close> and
  \<^verbatim>\<open>analysisResults.speech\<close> from the component's state; its speech block is the same
  as in \<^verbatim>\<open>calculateLocally\<close>. It returns the score as it is, without a cap.
\<close>

definition calculateScore ::
  "BEFASTAnswers \<Rightarrow> FaceAnalysisResult option \<Rightarrow> SpeechAnalysisResult option \<Rightarrow> scoreCard" where
  "calculateScore answers fa sa =
     (let (score, factors) =
            speechScoring sa (ui_faceScoring fa (ui_befastScoring answers (0, [])))
      in if score \<ge> 50
         then \<lparr>ui_score = score, ui_level = HIGH, ui_color = ''text-red-600'', ui_factors = factors\<rparr>
         else if score \<ge> 25
         then \<lparr>ui_score = score, ui_level = MEDIUM, ui_color = ''text-yellow-600'', ui_factors = factors\<rparr>
         else \<lparr>ui_score = score, ui_level = LOW, ui_color = ''text-green-600'', ui_factors = factors\<rparr>)"

section \<open>The risk score as the specification words it\<close>

definition asymmetryTier :: "FaceAnalysisResult option \<Rightarrow> int" where
  "asymmetryTier fa =
     (case fa of
        None \<Rightarrow> 0
      | Some f \<Rightarrow> if jgt (asymmetry f) (Fin 30) then 30
                  else if jgt (asymmetry f) (Fin 15) then 15 else 0)"

definition speechTier :: "SpeechAnalysisResult option \<Rightarrow> int" where
  "speechTier sa =
     (case sa of
        None \<Rightarrow> 0
      | Some s \<Rightarrow> (if isSlurred s then 25 else 0) + (if jlt (confidence s) (Fin 0.7) then 10 else 0))"

definition spec_raw :: "AnalysisData \<Rightarrow> int" where
  "spec_raw d =
     20 * int (length (filter (\<lambda>answer. answer = Some True) (Object_values (befastAnswers d))))
       + asymmetryTier (faceAnalysis d) + speechTier (speechAnalysis d)"

definition spec_score :: "AnalysisData \<Rightarrow> int" where
  "spec_score d = max 0 (min 100 (spec_raw d))"

definition level_70_40 :: "int \<Rightarrow> level" where
  "level_70_40 s = (if s \<ge> 70 then HIGH else if 40 \<le> s \<and> s < 70 then MEDIUM else LOW)"

definition level_50_25 :: "int \<Rightarrow> level" where
  "level_50_25 s = (if s \<ge> 50 then HIGH else if 25 \<le> s \<and> s < 50 then MEDIUM else LOW)"

text \<open>The scenario of the specification: two positive answers, asymmetry 35, slurred, confidence 0.5.\<close>

definition scenario_data :: AnalysisData where
  "scenario_data =
     \<lparr>befastAnswers = \<lparr>balance = Some True, eyes = Some False, face = Some True,
                        arms = None, speech = Some False\<rparr>,
      faceAnalysis = Some \<lparr>asymmetry = Fin 35, face_confidence = Fin 0.9,
                           face_timestamp = Fin 0, landmarks = None\<rparr>,
      speechAnalysis = Some \<lparr>confidence = Fin 0.5, isSlurred = True,
                             transcription = Some ''My words are coming out wrong'',
                             timestamp = Fin 0\<rparr>\<rparr>"

text \<open>An input on which the page's score is 50: two positive answers and a speech
  analysis that is not slurred but has confidence 0.5.\<close>

definition two_positive :: BEFASTAnswers where
  "two_positive = \<lparr>balance = Some True, eyes = Some True, face = Some False,
                     arms = None, speech = None\<rparr>"

definition unsure_speech :: SpeechAnalysisResult where
  "unsure_speech = \<lparr>confidence = Fin 0.5, isSlurred = False,
                      transcription = Some ''My speech is fine today'', timestamp = Fin 0\<rparr>"

definition no_answers :: BEFASTAnswers where
  "no_answers = \<lparr>balance = None, eyes = None, face = None, arms = None, speech = None\<rparr>"

section \<open>Single-shot speech analysis (services/simpleOfflineSpeechAnalysis.ts)\<close>

record audioFeatures =
  duration :: number
  sampleRate :: number
  channels :: number
  rms :: number
  spectralCentroid :: number
  zeroCrossingRate :: number
  pitch :: number
  formants :: "number list"

text \<open>
  The statement \<^verbatim>\<open>if (c) { isSlurred = true; slurredReasons.push(reason); }\<close> on the
  pair of the two local variables.
\<close>

definition flag :: "bool \<Rightarrow> string \<Rightarrow> bool \<times> string list \<Rightarrow> bool \<times> string list" where
  "flag c reason = (\<lambda>(isSlurred, slurredReasons).
     if c then (True, slurredReasons @ [reason]) else (isSlurred, slurredReasons))"

text \<open>
  \<^verbatim>\<open>phrases[Math.floor(rnd * phrases.length)]\<close>, where \<open>rnd\<close> is the value that
  \<^verbatim>\<open>Math.random()\<close> returned; a read out of range gives \<^verbatim>\<open>undefined\<close>.
\<close>

definition pick :: "string list \<Rightarrow> real \<Rightarrow> string option" where
  "pick phrases rnd =
     (let i = \<lfloor>rnd * real (length phrases)\<rfloor>
      in if 0 \<le> i \<and> i < int (length phrases) then Some (phrases ! nat i) else None)"

text \<open>\<^verbatim>\<open>Array.prototype.join\<close> and the conversion of a value to a string in \<^verbatim>\<open>+=\<close>.\<close>

fun join :: "string \<Rightarrow> string list \<Rightarrow> string" where
  "join sep [] = []"
| "join sep [x] = x"
| "join sep (x # y # ys) = x @ sep @ join sep (y # ys)"

definition toString :: "string option \<Rightarrow> string" where
  "toString t = (case t of None \<Rightarrow> ''undefined'' | Some s \<Rightarrow> s)"

text \<open>\<^verbatim>\<open>` [${slurredReasons.join(', ') || 'normal'}]`\<close>: the empty string is falsy.\<close>

definition debugInfo :: "string list \<Rightarrow> string" where
  "debugInfo slurredReasons =
     '' ['' @ (if join '', '' slurredReasons = [] then ''normal'' else join '', '' slurredReasons)
       @ '']''"

definition slurredPhrases :: "string list" where
  "slurredPhrases =
     [''I can't speak clearly right now'',
      ''My words are coming out wrong'',
      ''Something is wrong with my speech'',
      ''I feel like I'm slurring my words'',
      ''Help me, I can't talk properly'',
      ''My voice sounds different today'',
      ''I'm having trouble forming words'']"

definition normalPhrases :: "string list" where
  "normalPhrases =
     [''Hello, I am speaking clearly'',
      ''I can talk normally right now'',
      ''My speech is fine today'',
      ''I don't have any problems speaking'',
      ''Everything sounds normal to me'',
      ''My voice is working well'',
      ''I can communicate clearly'']"

text \<open>\<^verbatim>\<open>analyzeSpeechPatterns\<close>, lines 218 to 240: the local variable \<^verbatim>\<open>confidence\<close>.\<close>

definition speechConfidence :: "audioFeatures \<Rightarrow> number" where
  "speechConfidence features =
     (let confidence = Fin 0.5;
          confidence = addIf (jgt (rms features) (Fin 0.05)) confidence (Fin 0.15);
          confidence = addIf (jgt (rms features) (Fin 0.1)) confidence (Fin 0.15);
          confidence = addIf (jgt (rms features) (Fin 0.2)) confidence (Fin 0.1);
          confidence = addIf (jgt (duration features) (Fin 0.5)) confidence (Fin 0.1);
          confidence = addIf (jgt (duration features) (Fin 1)) confidence (Fin 0.1);
          confidence = addIf (jgt (duration features) (Fin 2)) confidence (Fin 0.05);
          confidence = addIf (jgt (spectralCentroid features) (Fin 800)
                              \<and> jlt (spectralCentroid features) (Fin 3500)) confidence (Fin 0.1);
          confidence = addIf (jgt (zeroCrossingRate features) (Fin 0.01)
                              \<and> jlt (zeroCrossingRate features) (Fin 0.08)) confidence (Fin 0.1);
          confidence = addIf (jgt (pitch features) (Fin 80)
                              \<and> jlt (pitch features) (Fin 400)) confidence (Fin 0.1)
      in jmin (Fin 0.95) (jmax (Fin 0.3) confidence))"

text \<open>Lines 243 to 277: the local variables \<^verbatim>\<open>isSlurred\<close> and \<^verbatim>\<open>slurredReasons\<close>.\<close>

definition slurredRules :: "audioFeatures \<Rightarrow> bool \<times> string list" where
  "slurredRules features =
     (let st = (False, []);
          st = flag (jlt (rms features) (Fin 0.03)) ''low volume'' st;
          st = flag (jgt (zeroCrossingRate features) (Fin 0.12)) ''high noise'' st;
          st = flag (jlt (spectralCentroid features) (Fin 300)
                     \<or> jgt (spectralCentroid features) (Fin 5000)) ''abnormal frequency'' st;
          st = (if jlt (duration features) (Fin 0.3) then flag True ''too short'' st
                else if jgt (duration features) (Fin 15) then flag True ''too long'' st
                else st);
          st = flag (jlt (pitch features) (Fin 50) \<or> jgt (pitch features) (Fin 600))
                 ''abnormal pitch'' st
      in st)"

record speechPatterns =
  sp_confidence :: number
  sp_isSlurred :: bool
  sp_transcription :: "string option"

text \<open>
  \<^verbatim>\<open>analyzeSpeechPatterns\<close>. \<open>rnd\<close> is the value of the one call of
  \<^verbatim>\<open>Math.random()\<close>; \<open>development\<close> says whether \<^verbatim>\<open>process.env.NODE_ENV\<close> is
  \<^verbatim>\<open>'development'\<close>.
\<close>

definition analyzeSpeechPatterns :: "audioFeatures \<Rightarrow> real \<Rightarrow> bool \<Rightarrow> speechPatterns" where
  "analyzeSpeechPatterns features rnd development =
     (let confidence = speechConfidence features;
          (isSlurred, slurredReasons) = slurredRules features;
          transcription = (if isSlurred then pick slurredPhrases rnd else pick normalPhrases rnd);
          transcription = (if development
                           then Some (toString transcription @ debugInfo slurredReasons)
                           else transcription)
      in \<lparr>sp_confidence = confidence, sp_isSlurred = isSlurred,
          sp_transcription = transcription\<rparr>)"

section \<open>Real-time classification (services/realTimeVoiceAnalysis.ts)\<close>

record RealTimeSpeechAnalysisResult = SpeechAnalysisResult +
  volume :: number
  rt_pitch :: number
  clarity :: number
  isSpeaking :: bool

text \<open>The value returned by \<^verbatim>\<open>extractRealTimeFeatures\<close>.\<close>

record realTimeFeatures =
  f_volume :: number
  f_pitch :: number
  f_spectralCentroid :: number
  f_zeroCrossingRate :: number
  f_clarity :: number
  f_isSpeaking :: bool

text \<open>\<^verbatim>\<open>analyzeRealTimeSpeech\<close>, lines 263 to 285.\<close>

definition realTimeConfidence :: "realTimeFeatures \<Rightarrow> number" where
  "realTimeConfidence features =
     (let confidence = Fin 0.5;
          confidence =
            (if f_isSpeaking features then
               (let confidence = addIf (jgt (f_volume features) (Fin 0.1)) confidence (Fin 0.2);
                    confidence = addIf (jgt (f_volume features) (Fin 0.2)) confidence (Fin 0.15);
                    confidence = addIf (jgt (f_volume features) (Fin 0.3)) confidence (Fin 0.1);
                    confidence = addIf (jgt (f_pitch features) (Fin 80)
                                        \<and> jlt (f_pitch features) (Fin 400)) confidence (Fin 0.15);
                    confidence = addIf (jgt (f_clarity features) (Fin 0.3)) confidence (Fin 0.1);
                    confidence = addIf (jgt (f_clarity features) (Fin 0.5)) confidence (Fin 0.1);
                    confidence = addIf (jgt (f_spectralCentroid features) (Fin 20)
                                        \<and> jlt (f_spectralCentroid features) (Fin 200))
                                   confidence (Fin 0.1)
                in confidence)
             else Fin 0.1)
      in jmin (Fin 0.95) (jmax (Fin 0.1) confidence))"

text \<open>Lines 288 to 321.\<close>

definition realTimeSlurredRules :: "realTimeFeatures \<Rightarrow> bool \<times> string list" where
  "realTimeSlurredRules features =
     (let st = (False, [])
      in if f_isSpeaking features then
           (let st = flag (jlt (f_volume features) (Fin 0.05)) ''low volume'' st;
                st = flag (jgt (f_zeroCrossingRate features) (Fin 0.15)) ''high noise'' st;
                st = flag (jlt (f_spectralCentroid features) (Fin 10)
                           \<or> jgt (f_spectralCentroid features) (Fin 300))
                       ''abnormal frequency'' st;
                st = flag (jlt (f_pitch features) (Fin 50) \<or> jgt (f_pitch features) (Fin 600))
                       ''abnormal pitch'' st;
                st = flag (jlt (f_clarity features) (Fin 0.2)) ''low clarity'' st
            in st)
         else st)"

text \<open>
  \<^verbatim>\<open>analyzeRealTimeSpeech\<close>. \<open>rnd\<close> is the value of \<^verbatim>\<open>Math.random()\<close> (read only
  when speaking), \<open>now\<close> the value of \<^verbatim>\<open>Date.now()\<close>.
\<close>

definition analyzeRealTimeSpeech ::
  "realTimeFeatures \<Rightarrow> real \<Rightarrow> number \<Rightarrow> bool \<Rightarrow> RealTimeSpeechAnalysisResult" where
  "analyzeRealTimeSpeech features rnd now development =
     (let confidence = realTimeConfidence features;
          (isSlurred, slurredReasons) = realTimeSlurredRules features;
          transcription =
            (if f_isSpeaking features
             then (if isSlurred then pick slurredPhrases rnd else pick normalPhrases rnd)
             else Some ''No speech detected'');
          transcription =
            (if development \<and> f_isSpeaking features
             then Some (toString transcription @ debugInfo slurredReasons)
             else transcription)
      in \<lparr>confidence = confidence, isSlurred = isSlurred, transcription = transcription,
          timestamp = now, volume = f_volume features, rt_pitch = f_pitch features,
          clarity = f_clarity features, isSpeaking = f_isSpeaking features\<rparr>)"

text \<open>A feature set of a silent tick.\<close>

definition silent_features :: realTimeFeatures where
  "silent_features =
     \<lparr>f_volume = Fin 0, f_pitch = Fin 0, f_spectralCentroid = Fin 0,
      f_zeroCrossingRate = Fin 0, f_clarity = Fin 0, f_isSpeaking = False\<rparr>"

section \<open>Signal feature extraction (services/simpleOfflineSpeechAnalysis.ts)\<close>

text \<open>
  The decoded \<^verbatim>\<open>AudioBuffer\<close>: its attributes and the samples of channel 0
  (\<^verbatim>\<open>getChannelData(0)\<close>, a \<^verbatim>\<open>Float32Array\<close>). The sample rate steers the
  bounds of a loop; it is a finite float in every \<^verbatim>\<open>AudioBuffer\<close> and is modelled
  as a real.
\<close>

record AudioBuffer =
  buf_duration :: number
  buf_sampleRate :: real
  numberOfChannels :: number
  channelData :: "number list"

text \<open>
  \<^verbatim>\<open>xs[k]\<close>: a read out of range gives \<^verbatim>\<open>undefined\<close>, which every use below
  (arithmetic, comparison, \<^verbatim>\<open>|| 0\<close>) treats as it treats NaN.
\<close>

definition elemAt :: "number list \<Rightarrow> int \<Rightarrow> number" where
  "elemAt xs k = (if 0 \<le> k \<and> k < int (length xs) then xs ! nat k else NaN)"

text \<open>Line 72: \<^verbatim>\<open>Math.sqrt(channelData.reduce((sum, sample) => sum + sample * sample, 0) / channelData.length)\<close>.\<close>

definition rmsOf :: "number list \<Rightarrow> number" where
  "rmsOf samples =
     jsqrt (jdiv (foldl (\<lambda>sum sample. jadd sum (jmul sample sample)) (Fin 0) samples)
                 (Fin (real (length samples))))"

definition calculateZeroCrossingRate :: "number list \<Rightarrow> number" where
  "calculateZeroCrossingRate samples =
     (let crossings =
            length (filter (\<lambda>i. jge (elemAt samples (int i)) (Fin 0)
                                  \<noteq> jge (elemAt samples (int i - 1)) (Fin 0))
                      [1..<length samples])
      in jdiv (Fin (real crossings)) (Fin (real (length samples) - 1)))"

text \<open>
  The inner loop of the pitch detection: the autocorrelation at one period.
  \<open>sampleAt\<close> reads one sample; the loop runs while \<^verbatim>\<open>i < length - period\<close>.
\<close>

definition correlationAt :: "(int \<Rightarrow> number) \<Rightarrow> nat \<Rightarrow> int \<Rightarrow> number" where
  "correlationAt sampleAt len period =
     foldl (\<lambda>correlation i. jadd correlation (jmul (sampleAt (int i)) (sampleAt (int i + period))))
       (Fin 0) [0..<nat (int len - period)]"

text \<open>
  The outer loop, \<^verbatim>\<open>for (period = minPeriod; period < maxPeriod && period < length / 2; period++)\<close>,
  on the pair \<^verbatim>\<open>(bestPeriod, bestCorrelation)\<close>.
\<close>

function periodLoop ::
  "(int \<Rightarrow> number) \<Rightarrow> nat \<Rightarrow> int \<Rightarrow> int \<Rightarrow> int \<times> number \<Rightarrow> int \<times> number" where
  "periodLoop sampleAt len maxPeriod period best =
     (if period < maxPeriod \<and> real_of_int period < real len / 2
      then periodLoop sampleAt len maxPeriod (period + 1)
             (if jgt (correlationAt sampleAt len period) (snd best)
              then (period, correlationAt sampleAt len period) else best)
      else best)"
  by pat_completeness auto
termination
  by (relation "measure (\<lambda>(sampleAt, len, maxPeriod, period, best). nat (maxPeriod - period))") auto

declare periodLoop.simps [simp del]

definition calculatePitch :: "number list \<Rightarrow> real \<Rightarrow> number" where
  "calculatePitch samples rate =
     (let minPeriod = \<lfloor>rate / 400\<rfloor>;
          maxPeriod = \<lfloor>rate / 80\<rfloor>;
          (bestPeriod, bestCorrelation) =
             periodLoop (elemAt samples) (length samples) maxPeriod minPeriod (0, Fin 0)
      in if bestPeriod > 0 then Fin (rate / real_of_int bestPeriod) else Fin 0)"

definition applyHannWindow :: "number list \<Rightarrow> number list" where
  "applyHannWindow samples =
     map (\<lambda>i. let windowValue =
                    jmul (Fin 0.5)
                      (jsub (Fin 1)
                        (jcos (jdiv (Fin (2 * pi * real i)) (Fin (real (length samples) - 1)))))
               in jmul (samples ! i) windowValue)
       [0..<length samples]"

text \<open>\<^verbatim>\<open>x || 0\<close>: NaN, zero and \<^verbatim>\<open>undefined\<close> are falsy.\<close>

definition orZero :: "number \<Rightarrow> number" where
  "orZero x = (if x = NaN \<or> x = Fin 0 then Fin 0 else x)"

text \<open>
  \<^verbatim>\<open>computeMagnitude\<close>. Its callers pass frames of 1024 samples (lemma
  \<open>frames_length\<close> below), so \<^verbatim>\<open>windowed.length / 2\<close> is the integer 512.
\<close>

definition computeMagnitude :: "number list \<Rightarrow> number list" where
  "computeMagnitude samples =
     (let windowed = applyHannWindow samples
      in map (\<lambda>i. let re = orZero (elemAt windowed (int i * 2));
                       im = orZero (elemAt windowed (int i * 2 + 1))
                   in jsqrt (jadd (jmul re re) (jmul im im)))
           [0..<length windowed div 2])"

text \<open>
  The frames of \<^verbatim>\<open>for (i = 0; i < samples.length - 1024; i += 512)\<close>:
  \<^verbatim>\<open>samples.slice(i, i + 1024)\<close>.
\<close>

function frames :: "nat \<Rightarrow> number list \<Rightarrow> number list list" where
  "frames i samples =
     (if int i < int (length samples) - 1024
      then take 1024 (drop i samples) # frames (i + 512) samples
      else [])"
  by pat_completeness auto
termination
  by (relation "measure (\<lambda>(i, samples). length samples - i)") auto

declare frames.simps [simp del]

definition calculateSpectralCentroid :: "number list \<Rightarrow> real \<Rightarrow> number" where
  "calculateSpectralCentroid samples rate =
     (let (sum, weightSum) =
            foldl (\<lambda>acc frame.
                     let magnitude = computeMagnitude frame
                     in foldl (\<lambda>(sum, weightSum) j.
                                 let frequency = Fin ((real j * rate) / 1024)
                                 in (jadd sum (jmul frequency (magnitude ! j)),
                                     jadd weightSum (magnitude ! j)))
                          acc [0..<length magnitude])
              (Fin 0, Fin 0) (frames 0 samples)
      in if jgt weightSum (Fin 0) then jdiv sum weightSum else Fin 0)"

text \<open>
  \<^verbatim>\<open>peaks.sort((a, b) => b - a)\<close>: descending order. A pushed peak has passed three
  strict comparisons, so it is never NaN, and the comparator is consistent.
\<close>

fun insertDescending :: "number \<Rightarrow> number list \<Rightarrow> number list" where
  "insertDescending x [] = [x]"
| "insertDescending x (y # ys) =
     (if jlt x y then y # insertDescending x ys else x # y # ys)"

definition sortDescending :: "number list \<Rightarrow> number list" where
  "sortDescending xs = foldr insertDescending xs []"

text \<open>\<^verbatim>\<open>Math.max(...magnitude)\<close>: minus infinity for no argument, NaN if any argument is.\<close>

definition Math_max :: "number list \<Rightarrow> number" where
  "Math_max xs = foldl jmax NegInf xs"

definition findPeaks :: "number list \<Rightarrow> number list" where
  "findPeaks magnitude =
     (let threshold = jmul (Math_max magnitude) (Fin 0.1);
          peaks = map (\<lambda>i. magnitude ! i)
                    (filter (\<lambda>i. jgt (magnitude ! i) threshold
                                 \<and> jgt (magnitude ! i) (magnitude ! (i - 1))
                                 \<and> jgt (magnitude ! i) (magnitude ! (i + 1)))
                       [1..<length magnitude - 1])
      in sortDescending peaks)"

definition calculateFormants :: "number list \<Rightarrow> real \<Rightarrow> number list" where
  "calculateFormants samples rate =
     take 9 (concat (map (\<lambda>frame. take 3 (findPeaks (computeMagnitude frame)))
                       (frames 0 samples)))"

definition extractAudioFeatures :: "AudioBuffer \<Rightarrow> audioFeatures" where
  "extractAudioFeatures audioBuffer =
     (let channelData = channelData audioBuffer;
          sampleRate = buf_sampleRate audioBuffer
      in \<lparr>duration = buf_duration audioBuffer,
          sampleRate = Fin sampleRate,
          channels = numberOfChannels audioBuffer,
          rms = rmsOf channelData,
          spectralCentroid = calculateSpectralCentroid channelData sampleRate,
          zeroCrossingRate = calculateZeroCrossingRate channelData,
          pitch = calculatePitch channelData sampleRate,
          formants = calculateFormants channelData sampleRate\<rparr>)"

text \<open>The empty buffer of the scenario: no samples, duration 0.\<close>

definition empty_buffer :: "real \<Rightarrow> number \<Rightarrow> AudioBuffer" where
  "empty_buffer rate n =
     \<lparr>buf_duration = Fin 0, buf_sampleRate = rate, numberOfChannels = n, channelData = []\<rparr>"

section \<open>Real-time feature extraction (services/realTimeVoiceAnalysis.ts)\<close>

record RealTimeAnalysisConfig =
  analysisInterval :: number
  chunkSize :: number
  sensitivity :: number
  smoothingFactor :: number

text \<open>\<^verbatim>\<open>(timeDomainData[i] - 128) / 128\<close> for a byte of a \<^verbatim>\<open>Uint8Array\<close>.\<close>

definition byteSample :: "8 word \<Rightarrow> real" where
  "byteSample w = (real (unat w) - 128) / 128"

definition byteSampleAt :: "8 word list \<Rightarrow> int \<Rightarrow> number" where
  "byteSampleAt timeDomainData k =
     (if 0 \<le> k \<and> k < int (length timeDomainData)
      then Fin (byteSample (timeDomainData ! nat k)) else NaN)"

text \<open>
  \<^verbatim>\<open>calculateRealTimePitch\<close>. \<open>audioContext\<close> is the sample rate of the service's
  audio context, \<open>None\<close> when there is no context;
  \<^verbatim>\<open>this.audioContext?.sampleRate || 44100\<close>.
\<close>

definition calculateRealTimePitch :: "real option \<Rightarrow> 8 word list \<Rightarrow> number" where
  "calculateRealTimePitch audioContext timeDomainData =
     (let sampleRate = (case audioContext of
                          None \<Rightarrow> 44100
                        | Some r \<Rightarrow> if r = 0 then 44100 else r);
          minPeriod = \<lfloor>sampleRate / 400\<rfloor>;
          maxPeriod = \<lfloor>sampleRate / 80\<rfloor>;
          (bestPeriod, bestCorrelation) =
             periodLoop (byteSampleAt timeDomainData) (length timeDomainData)
               maxPeriod minPeriod (0, Fin 0)
      in if bestPeriod > 0 then Fin (sampleRate / real_of_int bestPeriod) else Fin 0)"

text \<open>\<^verbatim>\<open>calculateClarity\<close>; the loop keeps \<^verbatim>\<open>(totalEnergy, peakEnergy, peakIndex)\<close>.\<close>

definition calculateClarity :: "8 word list \<Rightarrow> number" where
  "calculateClarity frequencyData =
     (let (totalEnergy, peakEnergy, peakIndex) =
            foldl (\<lambda>(totalEnergy, peakEnergy, peakIndex) i.
                     (totalEnergy + unat (frequencyData ! i),
                      if unat (frequencyData ! i) > peakEnergy then unat (frequencyData ! i)
                      else peakEnergy,
                      if unat (frequencyData ! i) > peakEnergy then i else peakIndex))
              (0, 0, 0) [0..<length frequencyData]
      in if totalEnergy = 0 then Fin 0
         else
           (let concentrationRatio = real peakEnergy / real totalEnergy;
                normalizedPeakPosition = real peakIndex / real (length frequencyData);
                speechRangeBonus =
                  (if normalizedPeakPosition > 0.1 \<and> normalizedPeakPosition < 0.7
                   then 0.2 else 0)
            in Fin (min 1 (concentrationRatio + speechRangeBonus))))"

definition extractRealTimeFeatures ::
  "RealTimeAnalysisConfig \<Rightarrow> real option \<Rightarrow> 8 word list \<Rightarrow> 8 word list \<Rightarrow> realTimeFeatures" where
  "extractRealTimeFeatures config audioContext frequencyData timeDomainData =
     (let volume = foldl (\<lambda>volume w. volume + byteSample w * byteSample w) 0 timeDomainData;
          volume = jsqrt (jdiv (Fin volume) (Fin (real (length timeDomainData))));
          pitch = calculateRealTimePitch audioContext timeDomainData;
          (spectralCentroid, totalMagnitude) =
             foldl (\<lambda>(spectralCentroid, totalMagnitude) i.
                      (spectralCentroid + i * unat (frequencyData ! i),
                       totalMagnitude + unat (frequencyData ! i)))
               (0, 0) [0..<length frequencyData];
          spectralCentroid =
             (if totalMagnitude > 0 then Fin (real spectralCentroid / real totalMagnitude)
              else Fin 0);
          zeroCrossings =
             length (filter (\<lambda>i. (unat (timeDomainData ! i) \<ge> 128)
                                   \<noteq> (unat (timeDomainData ! (i - 1)) \<ge> 128))
                       [1..<length timeDomainData]);
          zeroCrossingRate =
             jdiv (Fin (real zeroCrossings)) (Fin (real (length timeDomainData) - 1));
          clarity = calculateClarity frequencyData;
          isSpeaking = jgt volume (sensitivity config)
      in \<lparr>f_volume = volume, f_pitch = pitch, f_spectralCentroid = spectralCentroid,
          f_zeroCrossingRate = zeroCrossingRate, f_clarity = clarity,
          f_isSpeaking = isSpeaking\<rparr>)"

section \<open>The real-time analysis loop (services/realTimeVoiceAnalysis.ts)\<close>

text \<open>
  What the service does to its surroundings: the interval timers of the window and the
  calls of the console and of the two callbacks, in order. A callback is known by a
  number. \<^verbatim>\<open>setInterval\<close> returns a handle greater than zero that no earlier timer
  had.
\<close>

type_synonym callback = nat

datatype event =
    ConsoleWarn string
  | ConsoleLog string
  | ConsoleError string
  | ResultCallback callback RealTimeSpeechAnalysisResult
  | ErrorCallback callback string

record browser =
  timers :: "(nat \<times> number) list"
  lastHandle :: nat
  events :: "event list"

definition setInterval :: "number \<Rightarrow> browser \<Rightarrow> nat \<times> browser" where
  "setInterval period b =
     (let handle = Suc (lastHandle b)
      in (handle, b\<lparr>timers := timers b @ [(handle, period)], lastHandle := handle\<rparr>))"

definition clearInterval :: "nat \<Rightarrow> browser \<Rightarrow> browser" where
  "clearInterval handle b = b\<lparr>timers := filter (\<lambda>t. fst t \<noteq> handle) (timers b)\<rparr>"

definition emit :: "event \<Rightarrow> browser \<Rightarrow> browser" where
  "emit e b = b\<lparr>events := events b @ [e]\<rparr>"

definition fresh_browser :: browser where
  "fresh_browser = \<lparr>timers = [], lastHandle = 0, events = []\<rparr>"

text \<open>
  The fields of \<^verbatim>\<open>RealTimeVoiceAnalysisService\<close>. The analyser, the microphone
  source and the stream are present or \<^verbatim>\<open>null\<close>; the audio context is known by its
  sample rate. The field \<^verbatim>\<open>analysisInterval\<close> of the class, the timer handle, is
  \<open>intervalHandle\<close> here (the configuration has a field of the same name).
\<close>

record service =
  audioContext :: "real option"
  analyser :: bool
  microphone :: bool
  stream :: bool
  isAnalyzing :: bool
  intervalHandle :: "nat option"
  config :: RealTimeAnalysisConfig
  lastResults :: "RealTimeSpeechAnalysisResult list"
  onResultCallback :: "callback option"
  onErrorCallback :: "callback option"

text \<open>The constructor: \<^verbatim>\<open>{ ...defaults, ...config }\<close> for a partial configuration.\<close>

record partialConfig =
  p_analysisInterval :: "number option"
  p_chunkSize :: "number option"
  p_sensitivity :: "number option"
  p_smoothingFactor :: "number option"

definition orDefault :: "number option \<Rightarrow> number \<Rightarrow> number" where
  "orDefault given dflt = (case given of None \<Rightarrow> dflt | Some v \<Rightarrow> v)"

definition newService :: "partialConfig \<Rightarrow> service" where
  "newService given =
     \<lparr>audioContext = None, analyser = False, microphone = False, stream = False,
      isAnalyzing = False, intervalHandle = None,
      config = \<lparr>analysisInterval = orDefault (p_analysisInterval given) (Fin 200),
                 chunkSize = orDefault (p_chunkSize given) (Fin 1024),
                 sensitivity = orDefault (p_sensitivity given) (Fin 0.3),
                 smoothingFactor = orDefault (p_smoothingFactor given) (Fin 0.7)\<rparr>,
      lastResults = [], onResultCallback = None, onErrorCallback = None\<rparr>"

definition noOverrides :: partialConfig where
  "noOverrides = \<lparr>p_analysisInterval = None, p_chunkSize = None,
                   p_sensitivity = None, p_smoothingFactor = None\<rparr>"

text \<open>
  \<^verbatim>\<open>initialize\<close>: the microphone may be denied (nothing is assigned), the creation of
  the audio context may fail (the stream is assigned already), or all four handles are
  set. The first component of the result is the message of the error thrown, if any.
\<close>

datatype initOutcome = MicrophoneDenied | ContextFailed | Ready real

definition initialize ::
  "initOutcome \<Rightarrow> service \<times> browser \<Rightarrow> string option \<times> service \<times> browser" where
  "initialize outcome = (\<lambda>(s, b).
     case outcome of
       MicrophoneDenied \<Rightarrow>
         (Some ''Microphone access denied or not available'', s,
          emit (ConsoleError ''Failed to initialize real-time voice analysis:'') b)
     | ContextFailed \<Rightarrow>
         (Some ''Microphone access denied or not available'', s\<lparr>stream := True\<rparr>,
          emit (ConsoleError ''Failed to initialize real-time voice analysis:'') b)
     | Ready rate \<Rightarrow>
         (None,
          s\<lparr>stream := True, audioContext := Some rate, analyser := True, microphone := True\<rparr>,
          emit (ConsoleLog ''Real-time voice analysis initialized'') b))"

definition startAnalysis ::
  "callback \<Rightarrow> callback option \<Rightarrow> service \<times> browser \<Rightarrow> service \<times> browser" where
  "startAnalysis onResult onError = (\<lambda>(s, b).
     if isAnalyzing s then (s, emit (ConsoleWarn ''Real-time analysis already running'') b)
     else if \<not> analyser s then
       (s, case onError of
             None \<Rightarrow> b
           | Some k \<Rightarrow> emit (ErrorCallback k ''Real-time analysis not initialized'') b)
     else
       (let s = s\<lparr>onResultCallback := Some onResult, onErrorCallback := onError,
                  isAnalyzing := True\<rparr>;
            (handle, b) = setInterval (analysisInterval (config s)) b;
            s = s\<lparr>intervalHandle := Some handle\<rparr>
        in (s, emit (ConsoleLog ''Real-time voice analysis started'') b)))"

text \<open>\<^verbatim>\<open>if (this.analysisInterval)\<close> holds for a handle other than 0.\<close>

definition stopAnalysis :: "service \<times> browser \<Rightarrow> service \<times> browser" where
  "stopAnalysis = (\<lambda>(s, b).
     if \<not> isAnalyzing s then (s, b)
     else
       (let s = s\<lparr>isAnalyzing := False\<rparr>;
            (s, b) = (case intervalHandle s of
                        None \<Rightarrow> (s, b)
                      | Some handle \<Rightarrow>
                          if handle \<noteq> 0
                          then (s\<lparr>intervalHandle := None\<rparr>, clearInterval handle b)
                          else (s, b));
            s = s\<lparr>onResultCallback := None, onErrorCallback := None, lastResults := []\<rparr>
        in (s, emit (ConsoleLog ''Real-time voice analysis stopped'') b)))"

text \<open>The smoothing formula of lines 378 to 381.\<close>

definition ema :: "number \<Rightarrow> number \<Rightarrow> number \<Rightarrow> number" where
  "ema factor previous current =
     jadd (jmul previous factor) (jmul current (jsub (Fin 1) factor))"

definition smoothResults ::
  "service \<Rightarrow> RealTimeSpeechAnalysisResult \<Rightarrow> RealTimeSpeechAnalysisResult" where
  "smoothResults s newResult =
     (if length (lastResults s) = 0 then newResult
      else
        (let lastResult = lastResults s ! (length (lastResults s) - 1);
             smoothingFactor = smoothingFactor (config s)
         in newResult
              \<lparr>confidence := ema smoothingFactor (confidence lastResult) (confidence newResult),
               volume := ema smoothingFactor (volume lastResult) (volume newResult),
               rt_pitch := ema smoothingFactor (rt_pitch lastResult) (rt_pitch newResult),
               clarity := ema smoothingFactor (clarity lastResult) (clarity newResult),
               isSlurred := isSlurred newResult,
               isSpeaking := isSpeaking newResult\<rparr>))"

text \<open>
  One firing of the timer. The analyser's two reads either fail with an error or give the
  frequency bytes and the time-domain bytes; the tick also fixes what \<^verbatim>\<open>Math.random()\<close>
  and \<^verbatim>\<open>Date.now()\<close> return in it. The callbacks belong to the client and are taken
  to return normally.
\<close>

datatype reading = ReadFails string | Snapshot "8 word list" "8 word list"

record tick =
  tick_reading :: reading
  tick_random :: real
  tick_clock :: number

text \<open>Lines 130 and 131: the raw result of a tick, before smoothing.\<close>

definition rawResult ::
  "bool \<Rightarrow> service \<Rightarrow> 8 word list \<Rightarrow> 8 word list \<Rightarrow> real \<Rightarrow> number
     \<Rightarrow> RealTimeSpeechAnalysisResult" where
  "rawResult development s frequencyData timeDomainData rnd now =
     analyzeRealTimeSpeech
       (extractRealTimeFeatures (config s) (audioContext s) frequencyData timeDomainData)
       rnd now development"

definition performRealTimeAnalysis :: "bool \<Rightarrow> tick \<Rightarrow> service \<times> browser \<Rightarrow> service \<times> browser" where
  "performRealTimeAnalysis development t = (\<lambda>(s, b).
     if \<not> analyser s \<or> \<not> isAnalyzing s then (s, b)
     else
       (case tick_reading t of
          ReadFails e \<Rightarrow>
            (let b = emit (ConsoleError ''Real-time analysis error:'') b
             in (s, case onErrorCallback s of None \<Rightarrow> b | Some k \<Rightarrow> emit (ErrorCallback k e) b))
        | Snapshot frequencyData timeDomainData \<Rightarrow>
            (let result = rawResult development s frequencyData timeDomainData
                            (tick_random t) (tick_clock t);
                 smoothedResult = smoothResults s result;
                 s = s\<lparr>lastResults := lastResults s @ [smoothedResult]\<rparr>;
                 s = (if length (lastResults s) > 10
                      then s\<lparr>lastResults := tl (lastResults s)\<rparr> else s)
             in (s, case onResultCallback s of
                      None \<Rightarrow> b
                    | Some k \<Rightarrow> emit (ResultCallback k smoothedResult) b))))"

definition cleanup :: "service \<times> browser \<Rightarrow> service \<times> browser" where
  "cleanup st =
     (let (s, b) = stopAnalysis st
      in (s\<lparr>stream := False, audioContext := None, analyser := False, microphone := False,
            lastResults := []\<rparr>, b))"

text \<open>
  The calls a client can make and the passing of one timer period, in which every
  active timer fires once.
\<close>

datatype operation =
    Initialize initOutcome
  | StartAnalysis callback "callback option"
  | StopAnalysis
  | Period tick
  | Cleanup

fun perform :: "bool \<Rightarrow> operation \<Rightarrow> service \<times> browser \<Rightarrow> service \<times> browser" where
  "perform development (Initialize outcome) st = snd (initialize outcome st)"
| "perform development (StartAnalysis onResult onError) st = startAnalysis onResult onError st"
| "perform development StopAnalysis st = stopAnalysis st"
| "perform development (Period t) st =
     foldl (\<lambda>st timer. performRealTimeAnalysis development t st) st (timers (snd st))"
| "perform development Cleanup st = cleanup st"

definition run :: "bool \<Rightarrow> operation list \<Rightarrow> service \<times> browser \<Rightarrow> service \<times> browser" where
  "run development ops st = foldl (\<lambda>st op. perform development op st) st ops"

text \<open>The results handed to the result callback, in order.\<close>

fun delivered :: "event list \<Rightarrow> RealTimeSpeechAnalysisResult list" where
  "delivered [] = []"
| "delivered (ResultCallback k r # es) = r # delivered es"
| "delivered (e # es) = delivered es"

text \<open>A run of ticks whose reads succeed, each given by its two byte arrays, its random
  value and its clock value.\<close>

definition snapshotTick :: "8 word list \<times> 8 word list \<times> real \<times> number \<Rightarrow> tick" where
  "snapshotTick = (\<lambda>(frequencyData, timeDomainData, rnd, now).
     \<lparr>tick_reading = Snapshot frequencyData timeDomainData, tick_random = rnd,
      tick_clock = now\<rparr>)"

definition ticks ::
  "bool \<Rightarrow> (8 word list \<times> 8 word list \<times> real \<times> number) list \<Rightarrow> service \<times> browser
     \<Rightarrow> service \<times> browser" where
  "ticks development xs st =
     foldl (\<lambda>st x. performRealTimeAnalysis development (snapshotTick x) st) st xs"

section \<open>The smoothing as the specification words it\<close>

text \<open>
  The first result is emitted unchanged; each later result has its four continuous
  fields smoothed against the result emitted just before it and keeps the discrete
  fields of the raw result.
\<close>

definition smoothAgainst ::
  "number \<Rightarrow> RealTimeSpeechAnalysisResult \<Rightarrow> RealTimeSpeechAnalysisResult
     \<Rightarrow> RealTimeSpeechAnalysisResult" where
  "smoothAgainst f previous current =
     current\<lparr>confidence := ema f (confidence previous) (confidence current),
             volume := ema f (volume previous) (volume current),
             rt_pitch := ema f (rt_pitch previous) (rt_pitch current),
             clarity := ema f (clarity previous) (clarity current)\<rparr>"

fun spec_emitted ::
  "number \<Rightarrow> RealTimeSpeechAnalysisResult option \<Rightarrow> RealTimeSpeechAnalysisResult list
     \<Rightarrow> RealTimeSpeechAnalysisResult list" where
  "spec_emitted f previous [] = []"
| "spec_emitted f None (r # rs) = r # spec_emitted f (Some r) rs"
| "spec_emitted f (Some p) (r # rs) = smoothAgainst f p r # spec_emitted f (Some (smoothAgainst f p r)) rs"

definition previousResult :: "service \<Rightarrow> RealTimeSpeechAnalysisResult option" where
  "previousResult s = (if lastResults s = [] then None else Some (last (lastResults s)))"

text \<open>Two decoded buffers with the same samples, rate and duration.\<close>

definition mono_buffer :: AudioBuffer where
  "mono_buffer = \<lparr>buf_duration = Fin (1 / 22050), buf_sampleRate = 44100,
                   numberOfChannels = Fin 1, channelData = [Fin 0.5, Fin (- 0.5)]\<rparr>"

definition stereo_buffer :: AudioBuffer where
  "stereo_buffer = \<lparr>buf_duration = Fin (1 / 22050), buf_sampleRate = 44100,
                     numberOfChannels = Fin 2, channelData = [Fin 0.5, Fin (- 0.5)]\<rparr>"

section \<open>Invariant and example runs of the loop\<close>

text \<open>
  The timer invariant of one service: while it is analyzing, the window holds exactly one
  timer, the one whose handle the service keeps, and that handle is not 0; otherwise the
  window holds no timer.
\<close>

definition oneTimer :: "service \<times> browser \<Rightarrow> bool" where
  "oneTimer = (\<lambda>(s, b).
     if isAnalyzing s
     then intervalHandle s \<noteq> None \<and> intervalHandle s \<noteq> Some 0
          \<and> map (\<lambda>t. Some (fst t)) (timers b) = [intervalHandle s]
     else timers b = [])"

text \<open>The raw result of a tick given by its two byte arrays, random value and clock value.\<close>

definition rawOf ::
  "bool \<Rightarrow> service \<Rightarrow> 8 word list \<times> 8 word list \<times> real \<times> number
     \<Rightarrow> RealTimeSpeechAnalysisResult" where
  "rawOf development s = (\<lambda>(frequencyData, timeDomainData, rnd, now).
     rawResult development s frequencyData timeDomainData rnd now)"

text \<open>A service that was initialized and started once, and three ticks: quiet, loud, quiet.\<close>

definition started :: "service \<times> browser" where
  "started = run False [Initialize (Ready 44100), StartAnalysis 1 None]
               (newService noOverrides, fresh_browser)"

definition three_ticks :: "(8 word list \<times> 8 word list \<times> real \<times> number) list" where
  "three_ticks = [([], [128, 128], 0.5, Fin 0), ([], [0, 0], 0.5, Fin 200),
                  ([], [128, 128], 0.5, Fin 400)]"

text \<open>What the next tick emits for a raw result, given the history of the service.\<close>

definition emittedNext :: "service \<Rightarrow> RealTimeSpeechAnalysisResult \<Rightarrow> RealTimeSpeechAnalysisResult" where
  "emittedNext s r =
     (case previousResult s of None \<Rightarrow> r | Some p \<Rightarrow> smoothAgainst (smoothingFactor (config s)) p r)"

section \<open>The methods as procedures in the ambient world\<close>

text \<open>
  A JavaScript function can call \<^verbatim>\<open>Math.random()\<close> or \<^verbatim>\<open>Date.now()\<close>, or read
  \<^verbatim>\<open>process.env\<close>, at any point of its body. To state which methods do and which do
  not, the methods of \<^verbatim>\<open>SimpleOfflineSpeechAnalysisService\<close> are given once more as
  procedures: computations in a state monad over the ambient world. The world holds the
  values that \<^verbatim>\<open>Math.random()\<close> is going to return, the number of values drawn so
  far, the clock and the mode. A call of a method is the procedure of that method, bound
  in the order of the calls in the source; a \<^verbatim>\<open>for\<close> loop whose body calls a method is
  \<open>forEach\<close>; a body that calls no method and reads nothing ambient returns its value.
\<close>

record world =
  world_randoms :: "nat \<Rightarrow> real"
  world_drawn :: nat
  world_clock :: number
  world_development :: bool

definition Math_random :: "(world, real) state" where
  "Math_random =
     State (\<lambda>w. (world_randoms w (world_drawn w), w\<lparr>world_drawn := Suc (world_drawn w)\<rparr>))"

definition Date_now :: "(world, number) state" where
  "Date_now = State (\<lambda>w. (world_clock w, w))"

definition NODE_ENV_development :: "(world, bool) state" where
  "NODE_ENV_development = State (\<lambda>w. (world_development w, w))"

text \<open>A loop over a list whose body is a procedure on the variables of the loop.\<close>

fun forEach :: "('b \<Rightarrow> 'a \<Rightarrow> (world, 'b) state) \<Rightarrow> 'b \<Rightarrow> 'a list \<Rightarrow> (world, 'b) state" where
  "forEach body vars [] = State_Monad.return vars"
| "forEach body vars (x # xs) = do { vars' \<leftarrow> body vars x; forEach body vars' xs }"

text \<open>Lines 201 to 208; \<^verbatim>\<open>Math.cos\<close> and \<^verbatim>\<open>Math.PI\<close> are not ambient.\<close>

definition applyHannWindow_proc :: "number list \<Rightarrow> (world, number list) state" where
  "applyHannWindow_proc samples = State_Monad.return (applyHannWindow samples)"

text \<open>Lines 190 to 198: the magnitudes of a windowed frame.\<close>

definition magnitudes :: "number list \<Rightarrow> number list" where
  "magnitudes windowed =
     map (\<lambda>i. let re = orZero (elemAt windowed (int i * 2));
                  im = orZero (elemAt windowed (int i * 2 + 1))
              in jsqrt (jadd (jmul re re) (jmul im im)))
       [0..<length windowed div 2]"

definition computeMagnitude_proc :: "number list \<Rightarrow> (world, number list) state" where
  "computeMagnitude_proc samples =
     do { windowed \<leftarrow> applyHannWindow_proc samples;
          State_Monad.return (magnitudes windowed) }"

text \<open>Lines 109 to 113: the inner loop of the spectral centroid on one frame's magnitudes.\<close>

definition accumulateFrame :: "real \<Rightarrow> number \<times> number \<Rightarrow> number list \<Rightarrow> number \<times> number" where
  "accumulateFrame rate acc magnitude =
     foldl (\<lambda>(sum, weightSum) j.
              let frequency = Fin ((real j * rate) / 1024)
              in (jadd sum (jmul frequency (magnitude ! j)), jadd weightSum (magnitude ! j)))
       acc [0..<length magnitude]"

definition calculateSpectralCentroid_proc :: "number list \<Rightarrow> real \<Rightarrow> (world, number) state" where
  "calculateSpectralCentroid_proc samples rate =
     do { acc \<leftarrow> forEach (\<lambda>acc frame.
                     do { magnitude \<leftarrow> computeMagnitude_proc frame;
                          State_Monad.return (accumulateFrame rate acc magnitude) })
                   (Fin 0, Fin 0) (frames 0 samples);
          State_Monad.return
            (if jgt (snd acc) (Fin 0) then jdiv (fst acc) (snd acc) else Fin 0) }"

definition calculateZeroCrossingRate_proc :: "number list \<Rightarrow> (world, number) state" where
  "calculateZeroCrossingRate_proc samples = State_Monad.return (calculateZeroCrossingRate samples)"

definition calculatePitch_proc :: "number list \<Rightarrow> real \<Rightarrow> (world, number) state" where
  "calculatePitch_proc samples rate = State_Monad.return (calculatePitch samples rate)"

definition findPeaks_proc :: "number list \<Rightarrow> (world, number list) state" where
  "findPeaks_proc magnitude = State_Monad.return (findPeaks magnitude)"

definition calculateFormants_proc :: "number list \<Rightarrow> real \<Rightarrow> (world, number list) state" where
  "calculateFormants_proc samples rate =
     do { formants \<leftarrow> forEach (\<lambda>formants frame.
                          do { magnitude \<leftarrow> computeMagnitude_proc frame;
                               peaks \<leftarrow> findPeaks_proc magnitude;
                               State_Monad.return (formants @ take 3 peaks) })
                        [] (frames 0 samples);
          State_Monad.return (take 9 formants) }"

definition extractAudioFeatures_proc :: "AudioBuffer \<Rightarrow> (world, audioFeatures) state" where
  "extractAudioFeatures_proc audioBuffer =
     do { rms \<leftarrow> State_Monad.return (rmsOf (channelData audioBuffer));
          spectralCentroid \<leftarrow>
            calculateSpectralCentroid_proc (channelData audioBuffer) (buf_sampleRate audioBuffer);
          zeroCrossingRate \<leftarrow> calculateZeroCrossingRate_proc (channelData audioBuffer);
          pitch \<leftarrow> calculatePitch_proc (channelData audioBuffer) (buf_sampleRate audioBuffer);
          formants \<leftarrow>
            calculateFormants_proc (channelData audioBuffer) (buf_sampleRate audioBuffer);
          State_Monad.return
            \<lparr>duration = buf_duration audioBuffer,
             sampleRate = Fin (buf_sampleRate audioBuffer),
             channels = numberOfChannels audioBuffer,
             rms = rms,
             spectralCentroid = spectralCentroid,
             zeroCrossingRate = zeroCrossingRate,
             pitch = pitch,
             formants = formants\<rparr> }"

text \<open>
  \<^verbatim>\<open>analyzeSpeechPatterns\<close> calls \<^verbatim>\<open>Math.random()\<close> once, in either branch of line
  281, and reads the mode in line 306.
\<close>

definition analyzeSpeechPatterns_proc :: "audioFeatures \<Rightarrow> (world, speechPatterns) state" where
  "analyzeSpeechPatterns_proc features =
     do { rnd \<leftarrow> Math_random;
          development \<leftarrow> NODE_ENV_development;
          State_Monad.return (analyzeSpeechPatterns features rnd development) }"

text \<open>The \<^verbatim>\<open>try\<close> block of \<^verbatim>\<open>analyzeSpeech\<close> once the recording is decoded.\<close>

definition analyzeSpeech_proc :: "AudioBuffer \<Rightarrow> (world, SpeechAnalysisResult) state" where
  "analyzeSpeech_proc audioBuffer =
     do { features \<leftarrow> extractAudioFeatures_proc audioBuffer;
          analysis \<leftarrow> analyzeSpeechPatterns_proc features;
          now \<leftarrow> Date_now;
          State_Monad.return
            \<lparr>confidence = sp_confidence analysis, isSlurred = sp_isSlurred analysis,
             transcription = sp_transcription analysis, timestamp = now\<rparr> }"

text \<open>The features that a run of the extraction returns when it starts in the world \<open>w\<close>.\<close>

definition featuresOfRun :: "AudioBuffer \<Rightarrow> world \<Rightarrow> audioFeatures" where
  "featuresOfRun audioBuffer w = fst (run_state (extractAudioFeatures_proc audioBuffer) w)"

text \<open>
  The Web Audio API computes the attribute \<^verbatim>\<open>duration\<close> of an \<^verbatim>\<open>AudioBuffer\<close> as
  its length divided by its sample rate.
\<close>

definition audioSeconds :: "AudioBuffer \<Rightarrow> number" where
  "audioSeconds audioBuffer =
     jdiv (Fin (real (length (channelData audioBuffer)))) (Fin (buf_sampleRate audioBuffer))"

text \<open>Two worlds that differ in every ambient value.\<close>

definition world_a :: world where
  "world_a = \<lparr>world_randoms = (\<lambda>n. 0), world_drawn = 0, world_clock = Fin 1,
              world_development = False\<rparr>"

definition world_b :: world where
  "world_b = \<lparr>world_randoms = (\<lambda>n. 0.5), world_drawn = 7, world_clock = Fin 2,
              world_development = True\<rparr>"

section \<open>Properties of the risk score\<close>

lemma fst_befastScoring:
  "fst (befastScoring a (s, fs)) = s + 20 * int (positiveBEFAST a)"
  by (simp add: befastScoring_def)

lemma fst_faceScoring:
  "fst (faceScoring fa (s, fs)) = s + asymmetryTier fa"
  by (simp add: faceScoring_def asymmetryTier_def split: option.splits)

lemma fst_speechScoring:
  "fst (speechScoring sa (s, fs)) = s + speechTier sa"
  by (simp add: speechScoring_def speechTier_def Let_def split: option.splits)

lemma fst_rawLocally: "fst (rawLocally d) = spec_raw d"
proof -
  obtain s1 f1 where b: "befastScoring (befastAnswers d) (0, []) = (s1, f1)"
    by (cases "befastScoring (befastAnswers d) (0, [])")
  obtain s2 f2 where f: "faceScoring (faceAnalysis d) (s1, f1) = (s2, f2)"
    by (cases "faceScoring (faceAnalysis d) (s1, f1)")
  have "s1 = 20 * int (positiveBEFAST (befastAnswers d))"
    using fst_befastScoring [of "befastAnswers d" 0 "[]"] b by simp
  moreover have "s2 = s1 + asymmetryTier (faceAnalysis d)"
    using fst_faceScoring [of "faceAnalysis d" s1 f1] f by simp
  moreover have "fst (rawLocally d) = s2 + speechTier (speechAnalysis d)"
    using fst_speechScoring [of "speechAnalysis d" s2 f2] b f by (simp add: rawLocally_def)
  ultimately show ?thesis
    by (simp add: spec_raw_def positiveBEFAST_def)
qed

lemma asymmetryTier_nonneg: "0 \<le> asymmetryTier fa"
  by (simp add: asymmetryTier_def split: option.splits)

lemma speechTier_nonneg: "0 \<le> speechTier sa"
  by (simp add: speechTier_def split: option.splits)

lemma spec_raw_nonneg: "0 \<le> spec_raw d"
  using asymmetryTier_nonneg [of "faceAnalysis d"] speechTier_nonneg [of "speechAnalysis d"]
  by (simp add: spec_raw_def)

lemma score_calculateLocally: "score (calculateLocally d now) = min (spec_raw d) 100"
  using fst_rawLocally [of d]
  by (cases "rawLocally d") (simp add: calculateLocally_def)

lemma level_calculateLocally: "level (calculateLocally d now) = level_70_40 (spec_raw d)"
  using fst_rawLocally [of d]
  by (cases "rawLocally d") (simp add: calculateLocally_def level_70_40_def)

lemma spec_raw_scenario: "spec_raw scenario_data = 105"
  by (simp add: spec_raw_def scenario_data_def Object_values_def asymmetryTier_def
      speechTier_def jgt_def)

text \<open>
  C1. For every input, the score returned by the local calculation is 20 times the number
  of answers that are \<^verbatim>\<open>true\<close>, plus the asymmetry tier when a face analysis is present,
  plus the speech tier when a speech analysis is present, clamped to the range from 0 to
  100. In the scenario (two positive answers, asymmetry 35, slurred speech, confidence
  0.5) the raw sum is 105, the returned score is 100 and the level is HIGH.
\<close>

theorem C1_score_formula:
  "score (calculateLocally d now) = spec_score d
   \<and> fst (rawLocally scenario_data) = 105
   \<and> score (calculateLocally scenario_data now) = 100
   \<and> level (calculateLocally scenario_data now) = HIGH"
proof -
  have "score (calculateLocally d now) = spec_score d"
    using spec_raw_nonneg [of d] by (simp add: score_calculateLocally spec_score_def)
  moreover have "fst (rawLocally scenario_data) = 105"
    by (simp add: fst_rawLocally spec_raw_scenario)
  moreover have "score (calculateLocally scenario_data now) = 100"
    by (simp add: score_calculateLocally spec_raw_scenario)
  moreover have "level (calculateLocally scenario_data now) = HIGH"
    by (simp add: level_calculateLocally spec_raw_scenario level_70_40_def)
  ultimately show ?thesis by simp
qed

lemma fst_ui_befastScoring:
  "fst (ui_befastScoring a (s, fs)) = s + 20 * int (positiveBEFAST a)"
  by (simp add: ui_befastScoring_def)

lemma ui_level_calculateScore:
  "ui_level (calculateScore a fa sa) = level_50_25 (ui_score (calculateScore a fa sa))"
  by (cases "speechScoring sa (ui_faceScoring fa (ui_befastScoring a (0, [])))")
    (simp add: calculateScore_def level_50_25_def)

text \<open>
  C2, as the claim states it, fails on the page's \<^verbatim>\<open>calculateScore\<close>: with two positive
  answers and an unsure but not slurred speech analysis the score is 50, which the page
  maps to HIGH, while the 70/40 table maps 50 to MEDIUM.
\<close>

theorem C2_counterexample:
  "ui_score (calculateScore two_positive None (Some unsure_speech)) = 50
   \<and> ui_level (calculateScore two_positive None (Some unsure_speech)) = HIGH
   \<and> level_70_40 (ui_score (calculateScore two_positive None (Some unsure_speech))) = MEDIUM"
  by (simp add: calculateScore_def ui_befastScoring_def ui_faceScoring_def speechScoring_def
      positiveBEFAST_def Object_values_def two_positive_def unsure_speech_def level_70_40_def)

text \<open>
  C2, amended. The local calculation of the advisor maps a returned score of at least 70
  to HIGH, a score from 40 up to but not including 70 to MEDIUM and any lower score to LOW;
  the page's \<^verbatim>\<open>calculateScore\<close> maps a score of at least 50 to HIGH, a score from 25 up
  to but not including 50 to MEDIUM and any lower score to LOW.
\<close>

theorem C2_level_tables:
  "level (calculateLocally d now) = level_70_40 (score (calculateLocally d now))
   \<and> ui_level (calculateScore a fa sa) = level_50_25 (ui_score (calculateScore a fa sa))"
proof -
  have "level_70_40 (min (spec_raw d) 100) = level_70_40 (spec_raw d)"
    by (simp add: level_70_40_def)
  then have "level (calculateLocally d now) = level_70_40 (score (calculateLocally d now))"
    by (simp add: level_calculateLocally score_calculateLocally)
  then show ?thesis
    by (simp add: ui_level_calculateScore)
qed

lemma positiveBEFAST_update:
  "answerOf q a \<noteq> Some True \<Longrightarrow>
   positiveBEFAST (updateBEFASTAnswer q True a) = Suc (positiveBEFAST a)"
  by (cases q) (simp_all add: positiveBEFAST_def Object_values_def)

lemma spec_raw_update:
  assumes "answerOf q (befastAnswers d) \<noteq> Some True"
  shows "spec_raw (d\<lparr>befastAnswers := updateBEFASTAnswer q True (befastAnswers d)\<rparr>)
         = spec_raw d + 20"
proof -
  have "spec_raw d = 20 * int (positiveBEFAST (befastAnswers d))
          + asymmetryTier (faceAnalysis d) + speechTier (speechAnalysis d)" for d
    by (simp add: spec_raw_def positiveBEFAST_def)
  then show ?thesis
    using positiveBEFAST_update [OF assms] by simp
qed

text \<open>
  C7. With the face analysis, the speech analysis and the other answers fixed, changing
  one answer that is not \<^verbatim>\<open>true\<close> to \<^verbatim>\<open>true\<close> never lowers the score of the local
  calculation: the new score is the old raw sum plus 20, capped at 100.
\<close>

theorem C7_score_monotone:
  assumes "answerOf q (befastAnswers d) \<noteq> Some True"
  shows "score (calculateLocally d now)
           \<le> score (calculateLocally
                 (d\<lparr>befastAnswers := updateBEFASTAnswer q True (befastAnswers d)\<rparr>) now')
         \<and> score (calculateLocally
                 (d\<lparr>befastAnswers := updateBEFASTAnswer q True (befastAnswers d)\<rparr>) now')
           = min (fst (rawLocally d) + 20) 100"
  using spec_raw_update [OF assms]
  by (simp add: score_calculateLocally fst_rawLocally)

theorem C7_score_monotone_witness:
  "score (calculateLocally
       \<lparr>befastAnswers = no_answers, faceAnalysis = None, speechAnalysis = None\<rparr> (Fin 0)) = 0
   \<and> score (calculateLocally
       \<lparr>befastAnswers = updateBEFASTAnswer Arms True no_answers,
        faceAnalysis = None, speechAnalysis = None\<rparr> (Fin 1)) = 20"
proof -
  let ?d = "\<lparr>befastAnswers = no_answers, faceAnalysis = None, speechAnalysis = None\<rparr>"
  have h: "answerOf Arms (befastAnswers ?d) \<noteq> Some True"
    by (simp add: no_answers_def)
  have r: "fst (rawLocally ?d) = 0"
    by (simp add: fst_rawLocally spec_raw_def Object_values_def no_answers_def
        asymmetryTier_def speechTier_def)
  have "score (calculateLocally ?d (Fin 0)) = 0"
    by (simp add: score_calculateLocally spec_raw_def Object_values_def no_answers_def
        asymmetryTier_def speechTier_def)
  then show ?thesis
    using C7_score_monotone [OF h, of "Fin 0" "Fin 1"] r by simp
qed

section \<open>Properties of the classifiers\<close>

lemma addIf_Fin: "\<exists>c. x = Fin c \<Longrightarrow> \<exists>c. addIf b x (Fin v) = Fin c"
  by (auto simp: addIf_def)

lemma Fin_isFin: "\<exists>c. Fin a = Fin c"
  by blast

lemma clamp_range:
  assumes "\<exists>c. x = Fin c" and "lo \<le> hi"
  shows "\<exists>r. jmin (Fin hi) (jmax (Fin lo) x) = Fin r \<and> lo \<le> r \<and> r \<le> hi"
  using assms by (auto simp: jmin_def jmax_def)

lemma speechConfidence_range:
  "\<exists>c. speechConfidence features = Fin c \<and> 0.3 \<le> c \<and> c \<le> 0.95"
  unfolding speechConfidence_def Let_def
  by (rule clamp_range) (intro addIf_Fin Fin_isFin, simp)

lemma realTimeConfidence_silent:
  "\<not> f_isSpeaking features \<Longrightarrow> realTimeConfidence features = Fin 0.1"
  by (simp add: realTimeConfidence_def jmin_def jmax_def)

lemma realTimeConfidence_range:
  "\<exists>c. realTimeConfidence features = Fin c \<and> 0.1 \<le> c \<and> c \<le> 0.95"
proof (cases "f_isSpeaking features")
  case True
  then show ?thesis
    unfolding realTimeConfidence_def Let_def
    by (simp only: if_True) (rule clamp_range, intro addIf_Fin Fin_isFin, simp)
next
  case False
  then have "realTimeConfidence features = Fin 0.1 \<and> (0.1::real) \<le> 0.1 \<and> (0.1::real) \<le> 0.95"
    by (simp add: realTimeConfidence_silent)
  then show ?thesis
    by (rule exI)
qed

text \<open>
  C8. For every feature vector the confidence of the single-shot classifier is a finite
  number between 0.3 and 0.95, and for every per-tick feature set the raw confidence of
  the real-time classifier is a finite number between 0.1 and 0.95.
\<close>

theorem C8_confidence_range: 
  "(\<exists>c. sp_confidence (analyzeSpeechPatterns features rnd development) = Fin c
        \<and> 0.3 \<le> c \<and> c \<le> 0.95)
   \<and> (\<exists>c. confidence (analyzeRealTimeSpeech rtFeatures rnd' now development') = Fin c
        \<and> 0.1 \<le> c \<and> c \<le> 0.95)"
proof -
  have "sp_confidence (analyzeSpeechPatterns features rnd development) = speechConfidence features"
    by (cases "slurredRules features") (simp add: analyzeSpeechPatterns_def Let_def)
  moreover have "confidence (analyzeRealTimeSpeech rtFeatures rnd' now development')
      = realTimeConfidence rtFeatures"
    by (cases "realTimeSlurredRules rtFeatures") (simp add: analyzeRealTimeSpeech_def Let_def)
  ultimately show ?thesis
    using speechConfidence_range [of features] realTimeConfidence_range [of rtFeatures]
    by simp
qed

text \<open>
  C10. For every per-tick feature set that is not speaking, the raw result of the
  real-time classifier is not slurred, has confidence exactly 0.1 and has the
  transcription "No speech detected", in development mode as well.
\<close>

theorem C10_silence:
  assumes "\<not> f_isSpeaking features"
  shows "isSlurred (analyzeRealTimeSpeech features rnd now development) = False
         \<and> confidence (analyzeRealTimeSpeech features rnd now development) = Fin 0.1
         \<and> transcription (analyzeRealTimeSpeech features rnd now development)
             = Some ''No speech detected''"
  using assms realTimeConfidence_silent [OF assms]
  by (simp add: analyzeRealTimeSpeech_def realTimeSlurredRules_def)

theorem C10_silence_witness:
  "\<not> f_isSpeaking silent_features
   \<and> isSlurred (analyzeRealTimeSpeech silent_features 0.5 (Fin 0) True) = False
   \<and> confidence (analyzeRealTimeSpeech silent_features 0.5 (Fin 0) True) = Fin 0.1
   \<and> transcription (analyzeRealTimeSpeech silent_features 0.5 (Fin 0) True)
       = Some ''No speech detected''"
proof -
  have h: "\<not> f_isSpeaking silent_features"
    by (simp add: silent_features_def)
  show ?thesis
    using h C10_silence [OF h, of "0.5" "Fin 0" True] by simp
qed

section \<open>Properties of the feature extraction\<close>

lemma periodLoop_done:
  "\<not> (period < maxPeriod \<and> real_of_int period < real len / 2) \<Longrightarrow>
   periodLoop sampleAt len maxPeriod period best = best"
  by (subst periodLoop.simps) auto

lemma floor_periods: "\<lfloor>rate / 400\<rfloor> < (0::int) \<Longrightarrow> \<lfloor>rate / 80\<rfloor> \<le> \<lfloor>rate / 400 :: real\<rfloor>"
proof -
  assume "\<lfloor>rate / 400\<rfloor> < (0::int)"
  then have "rate / 400 < 0" by linarith
  then have "rate / 80 \<le> rate / 400" by simp
  then show ?thesis by (rule floor_mono)
qed

lemma calculatePitch_empty: "calculatePitch [] rate = Fin 0"
proof -
  have "\<not> (\<lfloor>rate / 400\<rfloor> < \<lfloor>rate / 80\<rfloor> \<and> real_of_int \<lfloor>rate / 400\<rfloor> < real (length ([]::number list)) / 2)"
    using floor_periods [of rate] by auto
  then have "periodLoop (elemAt []) (length ([]::number list)) \<lfloor>rate / 80\<rfloor> \<lfloor>rate / 400\<rfloor> (0, Fin 0) = (0, Fin 0)"
    by (rule periodLoop_done)
  then show ?thesis
    by (simp add: calculatePitch_def)
qed

lemma frames_short: "length samples \<le> 1024 \<Longrightarrow> frames i samples = []"
  by (subst frames.simps) simp

lemma frames_length: "frame \<in> set (frames i samples) \<Longrightarrow> length frame = 1024"
proof (induction i samples rule: frames.induct)
  case (1 i samples)
  show ?case
  proof (cases "int i < int (length samples) - 1024")
    case True
    then have "frames i samples = take 1024 (drop i samples) # frames (i + 512) samples"
      by (subst frames.simps) simp
    with "1.prems" have "frame = take 1024 (drop i samples) \<or> frame \<in> set (frames (i + 512) samples)"
      by simp
    then show ?thesis
      using True "1.IH" by auto
  next
    case False
    then have "frames i samples = []"
      by (subst frames.simps) simp
    with "1.prems" show ?thesis by simp
  qed
qed

lemma calculateSpectralCentroid_short:
  "length samples \<le> 1024 \<Longrightarrow> calculateSpectralCentroid samples rate = Fin 0"
  by (simp add: calculateSpectralCentroid_def frames_short jgt_def)

lemma rmsOf_empty: "rmsOf [] = NaN"
  by (simp add: rmsOf_def inf_of_sign_def)

lemma slurredRules_empty:
  "slurredRules (extractAudioFeatures (empty_buffer rate n))
   = (True, [''abnormal frequency'', ''too short'', ''abnormal pitch''])"
  by (simp add: slurredRules_def extractAudioFeatures_def empty_buffer_def rmsOf_empty
      calculatePitch_empty calculateSpectralCentroid_short calculateZeroCrossingRate_def
      flag_def jgt_def Let_def)

text \<open>
  C3. On the empty buffer (no samples, duration 0) the extractor returns pitch 0 and
  spectral centroid 0, and the single-shot classifier marks the result as slurred with
  "too short" among the reasons; but the RMS is \<^verbatim>\<open>Math.sqrt(0 / 0)\<close>, which is NaN
  and not 0, so "low volume" is not among the reasons.
\<close>

theorem C3_empty_buffer:
  "rms (extractAudioFeatures (empty_buffer rate n)) = NaN
   \<and> pitch (extractAudioFeatures (empty_buffer rate n)) = Fin 0
   \<and> spectralCentroid (extractAudioFeatures (empty_buffer rate n)) = Fin 0
   \<and> sp_isSlurred (analyzeSpeechPatterns (extractAudioFeatures (empty_buffer rate n)) rnd development)
   \<and> ''too short'' \<in> set (snd (slurredRules (extractAudioFeatures (empty_buffer rate n))))
   \<and> ''low volume'' \<notin> set (snd (slurredRules (extractAudioFeatures (empty_buffer rate n))))"
  by (simp add: slurredRules_empty analyzeSpeechPatterns_def Let_def)
    (simp add: extractAudioFeatures_def empty_buffer_def rmsOf_empty
      calculatePitch_empty calculateSpectralCentroid_short)

lemma sumsq_Fin:
  "foldl (\<lambda>sum sample. jadd sum (jmul sample sample)) (Fin a) (map Fin xs)
   = Fin (a + (\<Sum>x\<leftarrow>xs. x * x))"
  by (induction xs arbitrary: a) (simp_all add: add.assoc)

lemma sumsq_bounds:
  assumes "\<forall>x\<in>set xs. - 1 \<le> x \<and> x \<le> (1::real)"
  shows "0 \<le> (\<Sum>x\<leftarrow>xs. x * x) \<and> (\<Sum>x\<leftarrow>xs. x * x) \<le> real (length xs)"
  using assms
proof (induction xs)
  case Nil
  then show ?case by simp
next
  case (Cons x xs)
  then have "\<bar>x\<bar> \<le> 1" by auto
  then have "x\<^sup>2 \<le> 1" by (simp add: abs_square_le_1)
  then have "x * x \<le> 1" and "0 \<le> x * x"
    by (simp_all add: power2_eq_square)
  with Cons show ?case by simp
qed

lemma sumsq_zero:
  "((\<Sum>x\<leftarrow>xs. x * x) = 0) = (\<forall>x\<in>set xs. x = (0::real))"
proof (induction xs)
  case Nil
  then show ?case by simp
next
  case (Cons x xs)
  have "0 \<le> (\<Sum>x\<leftarrow>xs. x * x)"
    by (rule sum_list_nonneg) auto
  moreover have "0 \<le> x * x" by simp
  ultimately have "(x * x + (\<Sum>x\<leftarrow>xs. x * x) = 0) = (x * x = 0 \<and> (\<Sum>x\<leftarrow>xs. x * x) = 0)"
    by (simp add: add_nonneg_eq_0_iff)
  with Cons show ?case by simp
qed

lemma rmsOf_nonempty:
  assumes "xs \<noteq> []" and "\<forall>x\<in>set xs. - 1 \<le> x \<and> x \<le> 1"
  shows "\<exists>r. rmsOf (map Fin xs) = Fin r \<and> 0 \<le> r \<and> r \<le> 1 \<and> (r = 0) = (\<forall>x\<in>set xs. x = 0)"
proof -
  let ?S = "\<Sum>x\<leftarrow>xs. x * x"
  let ?n = "real (length xs)"
  have n: "0 < ?n" using assms(1) by simp
  have S: "0 \<le> ?S" "?S \<le> ?n" using sumsq_bounds [OF assms(2)] by simp_all
  have q: "0 \<le> ?S / ?n" "?S / ?n \<le> 1" using n S by simp_all
  have "rmsOf (map Fin xs) = Fin (sqrt (?S / ?n))"
    using n q sumsq_Fin [of 0 xs] by (simp add: rmsOf_def)
  moreover have "0 \<le> sqrt (?S / ?n)" using q by simp
  moreover have "sqrt (?S / ?n) \<le> 1" using q by simp
  moreover have "(sqrt (?S / ?n) = 0) = (\<forall>x\<in>set xs. x = 0)"
    using n sumsq_zero [of xs] by simp
  ultimately show ?thesis by blast
qed

text \<open>
  C4. The RMS of the empty buffer, whose samples are all 0 vacuously, is NaN: it is not
  0, and it is neither at least 0 nor at most 1.
\<close>

theorem C4_rms_empty:
  "rmsOf [] = NaN \<and> rmsOf [] \<noteq> Fin 0
   \<and> \<not> jge (rmsOf []) (Fin 0) \<and> \<not> jge (Fin 1) (rmsOf [])"
  by (simp add: rmsOf_empty jge_def)

lemma forEach_pure:
  assumes "\<And>vars x w. run_state (body vars x) w = (step vars x, w)"
  shows "run_state (forEach body vars xs) w = (foldl step vars xs, w)"
  by (induction xs arbitrary: vars w) (simp_all add: assms)

lemma run_computeMagnitude_proc:
  "run_state (computeMagnitude_proc samples) w = (computeMagnitude samples, w)"
  by (simp add: computeMagnitude_proc_def applyHannWindow_proc_def computeMagnitude_def
      magnitudes_def Let_def)

lemma run_calculateSpectralCentroid_proc:
  "run_state (calculateSpectralCentroid_proc samples rate) w
   = (calculateSpectralCentroid samples rate, w)"
proof -
  let ?step = "\<lambda>acc frame. accumulateFrame rate acc (computeMagnitude frame)"
  have "run_state (forEach (\<lambda>acc frame.
                     do { magnitude \<leftarrow> computeMagnitude_proc frame;
                          State_Monad.return (accumulateFrame rate acc magnitude) })
                   (Fin 0, Fin 0) (frames 0 samples)) w
        = (foldl ?step (Fin 0, Fin 0) (frames 0 samples), w)"
    by (rule forEach_pure) (simp add: run_computeMagnitude_proc)
  then show ?thesis
    by (simp add: calculateSpectralCentroid_proc_def calculateSpectralCentroid_def
        accumulateFrame_def Let_def split_beta)
qed

lemma foldl_append_concat:
  "foldl (\<lambda>acc x. acc @ g x) acc xs = acc @ concat (map g xs)"
  by (induction xs arbitrary: acc) simp_all

lemma run_calculateFormants_proc:
  "run_state (calculateFormants_proc samples rate) w = (calculateFormants samples rate, w)"
proof -
  let ?step = "\<lambda>formants frame. formants @ take 3 (findPeaks (computeMagnitude frame))"
  have "run_state (forEach (\<lambda>formants frame.
                          do { magnitude \<leftarrow> computeMagnitude_proc frame;
                               peaks \<leftarrow> findPeaks_proc magnitude;
                               State_Monad.return (formants @ take 3 peaks) })
                        [] (frames 0 samples)) w
        = (foldl ?step [] (frames 0 samples), w)"
    by (rule forEach_pure) (simp add: run_computeMagnitude_proc findPeaks_proc_def)
  then show ?thesis
    by (simp add: calculateFormants_proc_def calculateFormants_def
        foldl_append_concat [of "\<lambda>frame. take 3 (findPeaks (computeMagnitude frame))" "[]"])
qed

lemma run_extractAudioFeatures_proc:
  "run_state (extractAudioFeatures_proc audioBuffer) w = (extractAudioFeatures audioBuffer, w)"
  by (simp add: extractAudioFeatures_proc_def extractAudioFeatures_def Let_def
      run_calculateSpectralCentroid_proc run_calculateFormants_proc
      calculateZeroCrossingRate_proc_def calculatePitch_proc_def)

text \<open>
  The classifier, in contrast, does read the ambient world: on the same features it
  returns different transcriptions in the two worlds, and it draws one random value.
\<close>

lemma classifier_reads_world:
  "sp_transcription (fst (run_state (analyzeSpeechPatterns_proc features) world_a))
     \<noteq> sp_transcription (fst (run_state (analyzeSpeechPatterns_proc features) world_b))
   \<and> world_drawn (snd (run_state (analyzeSpeechPatterns_proc features) w)) = Suc (world_drawn w)"
  by (cases "slurredRules features")
    (simp add: analyzeSpeechPatterns_proc_def Math_random_def NODE_ENV_development_def
      analyzeSpeechPatterns_def world_a_def world_b_def pick_def slurredPhrases_def
      normalPhrases_def toString_def Let_def)

lemma analyzeSpeech_proc_verdict:
  "isSlurred (fst (run_state (analyzeSpeech_proc audioBuffer) w1))
     = isSlurred (fst (run_state (analyzeSpeech_proc audioBuffer) w2))
   \<and> confidence (fst (run_state (analyzeSpeech_proc audioBuffer) w1))
     = confidence (fst (run_state (analyzeSpeech_proc audioBuffer) w2))
   \<and> timestamp (fst (run_state (analyzeSpeech_proc audioBuffer) w1)) = world_clock w1"
  by (simp add: analyzeSpeech_proc_def run_extractAudioFeatures_proc
      analyzeSpeechPatterns_proc_def Math_random_def NODE_ENV_development_def Date_now_def
      analyzeSpeechPatterns_def Let_def split_beta)

text \<open>
  C9. Two runs of the extraction on identical sample data and sample rate return
  identical RMS, spectral centroid, zero-crossing rate, pitch and formants, whatever the
  two worlds hold (the values of \<^verbatim>\<open>Math.random()\<close>, the clock, the mode); the duration
  returned is the buffer's own attribute, so it is identical too when each buffer's
  duration is its length divided by its rate. On one and the same buffer all features
  are identical in any two worlds, and a run leaves the world as it found it: it draws
  no random value.
\<close>

theorem C9_features_deterministic:
  assumes "channelData b1 = channelData b2" and "buf_sampleRate b1 = buf_sampleRate b2"
  shows "rms (featuresOfRun b1 w1) = rms (featuresOfRun b2 w2)
       \<and> spectralCentroid (featuresOfRun b1 w1) = spectralCentroid (featuresOfRun b2 w2)
       \<and> zeroCrossingRate (featuresOfRun b1 w1) = zeroCrossingRate (featuresOfRun b2 w2)
       \<and> pitch (featuresOfRun b1 w1) = pitch (featuresOfRun b2 w2)
       \<and> formants (featuresOfRun b1 w1) = formants (featuresOfRun b2 w2)
       \<and> (buf_duration b1 = audioSeconds b1 \<and> buf_duration b2 = audioSeconds b2
            \<longrightarrow> duration (featuresOfRun b1 w1) = duration (featuresOfRun b2 w2))
       \<and> featuresOfRun b1 w1 = featuresOfRun b1 w2
       \<and> snd (run_state (extractAudioFeatures_proc b1) w1) = w1"
  using assms
  by (simp add: featuresOfRun_def run_extractAudioFeatures_proc extractAudioFeatures_def
      audioSeconds_def Let_def)

theorem C9_features_deterministic_witness:
  "channelData mono_buffer = channelData stereo_buffer
   \<and> buf_sampleRate mono_buffer = buf_sampleRate stereo_buffer
   \<and> mono_buffer \<noteq> stereo_buffer
   \<and> buf_duration mono_buffer = audioSeconds mono_buffer
   \<and> buf_duration stereo_buffer = audioSeconds stereo_buffer
   \<and> world_a \<noteq> world_b
   \<and> rms (featuresOfRun mono_buffer world_a) = rms (featuresOfRun stereo_buffer world_b)
   \<and> pitch (featuresOfRun mono_buffer world_a) = pitch (featuresOfRun stereo_buffer world_b)
   \<and> formants (featuresOfRun mono_buffer world_a) = formants (featuresOfRun stereo_buffer world_b)
   \<and> duration (featuresOfRun mono_buffer world_a) = duration (featuresOfRun stereo_buffer world_b)
   \<and> featuresOfRun mono_buffer world_a = featuresOfRun mono_buffer world_b
   \<and> snd (run_state (extractAudioFeatures_proc mono_buffer) world_a) = world_a"
proof -
  have h1: "channelData mono_buffer = channelData stereo_buffer"
    and h2: "buf_sampleRate mono_buffer = buf_sampleRate stereo_buffer"
    and h3: "mono_buffer \<noteq> stereo_buffer"
    and h4: "buf_duration mono_buffer = audioSeconds mono_buffer"
    and h5: "buf_duration stereo_buffer = audioSeconds stereo_buffer"
    by (simp_all add: mono_buffer_def stereo_buffer_def audioSeconds_def)
  have h6: "world_a \<noteq> world_b"
    by (simp add: world_a_def world_b_def)
  show ?thesis
    using h1 h2 h3 h4 h5 h6
      C9_features_deterministic [OF h1 h2, where ?w1.0 = world_a and ?w2.0 = world_b]
    by blast
qed

section \<open>Properties of the real-time loop\<close>

lemma oneTimer_start: "oneTimer st \<Longrightarrow> oneTimer (startAnalysis onResult onError st)"
  by (cases st)
    (auto simp: oneTimer_def startAnalysis_def setInterval_def emit_def Let_def
      split: option.splits)

lemma oneTimer_stop: "oneTimer st \<Longrightarrow> oneTimer (stopAnalysis st)"
  by (cases st)
    (auto simp: oneTimer_def stopAnalysis_def clearInterval_def emit_def Let_def
      split: option.splits)

lemma oneTimer_tick: "oneTimer st \<Longrightarrow> oneTimer (performRealTimeAnalysis development t st)"
  by (cases st)
    (auto simp: oneTimer_def performRealTimeAnalysis_def emit_def Let_def
      split: option.splits reading.splits)

lemma oneTimer_cleanup: "oneTimer st \<Longrightarrow> oneTimer (cleanup st)"
proof -
  assume "oneTimer st"
  then have "oneTimer (stopAnalysis st)" by (rule oneTimer_stop)
  then show ?thesis
    by (cases "stopAnalysis st") (auto simp: cleanup_def oneTimer_def)
qed

lemma oneTimer_initialize: "oneTimer st \<Longrightarrow> oneTimer (snd (initialize outcome st))"
  by (cases st; cases outcome) (auto simp: oneTimer_def initialize_def emit_def)

lemma oneTimer_firings:
  "oneTimer st \<Longrightarrow> oneTimer (foldl (\<lambda>st timer. performRealTimeAnalysis development t st) st ts)"
  by (induction ts arbitrary: st) (simp_all add: oneTimer_tick)

lemma oneTimer_perform: "oneTimer st \<Longrightarrow> oneTimer (perform development op st)"
  by (cases op)
    (simp_all add: oneTimer_start oneTimer_stop oneTimer_cleanup oneTimer_initialize
      oneTimer_firings)

lemma oneTimer_run: "oneTimer st \<Longrightarrow> oneTimer (run development ops st)"
  unfolding run_def
  by (induction ops arbitrary: st) (simp_all add: oneTimer_perform)

lemma oneTimer_new: "oneTimer (newService given, fresh_browser)"
  by (simp add: oneTimer_def newService_def fresh_browser_def)

lemma oneTimer_count:
  "oneTimer st \<Longrightarrow> length (timers (snd st)) = (if isAnalyzing (fst st) then 1 else 0)"
  by (cases st) (auto simp: oneTimer_def)

text \<open>
  C6. A call of \<^verbatim>\<open>startAnalysis\<close> while the service is analyzing leaves the service as it
  is (the callbacks and the timer handle stay) and creates no timer; it only logs a
  warning. A call of \<^verbatim>\<open>stopAnalysis\<close> while the service is not analyzing changes
  nothing. After any sequence of calls and timer periods on a new service, the window
  holds exactly one timer if the service is analyzing and none otherwise.
\<close>

theorem C6_single_timer:
  "(isAnalyzing s \<longrightarrow>
      fst (startAnalysis onResult onError (s, b)) = s
      \<and> timers (snd (startAnalysis onResult onError (s, b))) = timers b
      \<and> events (snd (startAnalysis onResult onError (s, b)))
          = events b @ [ConsoleWarn ''Real-time analysis already running''])
   \<and> (\<not> isAnalyzing s \<longrightarrow> stopAnalysis (s, b) = (s, b))
   \<and> length (timers (snd (run development ops (newService given, fresh_browser))))
       = (if isAnalyzing (fst (run development ops (newService given, fresh_browser)))
          then 1 else 0)"
proof -
  have "oneTimer (run development ops (newService given, fresh_browser))"
    using oneTimer_new by (rule oneTimer_run)
  then have "length (timers (snd (run development ops (newService given, fresh_browser))))
       = (if isAnalyzing (fst (run development ops (newService given, fresh_browser)))
          then 1 else 0)"
    by (rule oneTimer_count)
  then show ?thesis
    by (simp add: startAnalysis_def stopAnalysis_def emit_def)
qed

lemma started_eq:
  "started =
     ((newService noOverrides)
        \<lparr>stream := True, audioContext := Some 44100, analyser := True, microphone := True,
         onResultCallback := Some 1, onErrorCallback := None, isAnalyzing := True,
         intervalHandle := Some 1\<rparr>,
      \<lparr>timers = [(1, Fin 200)], lastHandle = 1,
       events = [ConsoleLog ''Real-time voice analysis initialized'',
                 ConsoleLog ''Real-time voice analysis started'']\<rparr>)"
  by (simp add: started_def run_def initialize_def startAnalysis_def setInterval_def emit_def
      newService_def noOverrides_def fresh_browser_def orDefault_def Let_def)

theorem C6_single_timer_witness:
  "isAnalyzing (fst started)
   \<and> fst (startAnalysis 2 (Some 3) started) = fst started
   \<and> timers (snd (startAnalysis 2 (Some 3) started)) = [(1, Fin 200)]
   \<and> onResultCallback (fst (startAnalysis 2 (Some 3) started)) = Some 1
   \<and> \<not> isAnalyzing (newService noOverrides)
   \<and> stopAnalysis (newService noOverrides, fresh_browser) = (newService noOverrides, fresh_browser)
   \<and> length (timers (snd (run False [Initialize (Ready 44100), StartAnalysis 1 None,
                                      StartAnalysis 2 (Some 3)]
                             (newService noOverrides, fresh_browser)))) = 1"
proof -
  have a: "isAnalyzing (fst started)"
    by (simp add: started_eq)
  have n: "\<not> isAnalyzing (newService noOverrides)"
    by (simp add: newService_def)
  have r: "isAnalyzing (fst (run False [Initialize (Ready 44100), StartAnalysis 1 None,
                                      StartAnalysis 2 (Some 3)]
                             (newService noOverrides, fresh_browser)))"
    using started_eq by (simp add: run_def started_def startAnalysis_def)
  have t: "timers (snd started) = [(1, Fin 200)]" "onResultCallback (fst started) = Some 1"
    by (simp_all add: started_eq)
  show ?thesis
    using a n r t
      C6_single_timer [of "fst started" 2 "Some 3" "snd started" False
            "[Initialize (Ready 44100), StartAnalysis 1 None, StartAnalysis 2 (Some 3)]"
            noOverrides]
      C6_single_timer [of "newService noOverrides" 2 "Some 3" fresh_browser False "[]" noOverrides]
    by simp
qed

lemma delivered_append: "delivered (es @ [ResultCallback k r]) = delivered es @ [r]"
  by (induction es rule: delivered.induct) simp_all

lemma smoothResults_previous:
  "smoothResults s r =
     (case previousResult s of None \<Rightarrow> r | Some p \<Rightarrow> smoothAgainst (smoothingFactor (config s)) p r)"
  by (simp add: smoothResults_def previousResult_def smoothAgainst_def Let_def last_conv_nth)

lemma last_capped:
  "last (if length (xs @ [e]) > 10 then tl (xs @ [e]) else xs @ [e]) = e
   \<and> (if length (xs @ [e]) > 10 then tl (xs @ [e]) else xs @ [e]) \<noteq> []"
  by (cases xs) (auto simp: last_tl)

lemma tick_step:
  assumes "analyser s" "isAnalyzing s" "onResultCallback s = Some k"
  obtains s' where
    "performRealTimeAnalysis development (snapshotTick x) (s, b)
       = (s', emit (ResultCallback k (emittedNext s (rawOf development s x))) b)"
    "analyser s'" "isAnalyzing s'" "onResultCallback s' = Some k"
    "config s' = config s" "audioContext s' = audioContext s"
    "previousResult s' = Some (emittedNext s (rawOf development s x))"
proof -
  obtain f d rnd now where x: "x = (f, d, rnd, now)" by (cases x)
  let ?e = "emittedNext s (rawOf development s x)"
  let ?h = "if length (lastResults s @ [?e]) > 10 then tl (lastResults s @ [?e]) else lastResults s @ [?e]"
  let ?s = "s\<lparr>lastResults := ?h\<rparr>"
  have "performRealTimeAnalysis development (snapshotTick x) (s, b)
       = (?s, emit (ResultCallback k ?e) b)"
    using assms
    by (simp add: performRealTimeAnalysis_def snapshotTick_def x rawOf_def emittedNext_def
        smoothResults_previous Let_def)
  moreover have "previousResult ?s = Some ?e"
    using last_capped [of "lastResults s" ?e] by (simp add: previousResult_def)
  ultimately show ?thesis
    using assms that [of ?s] by simp
qed

lemma rawOf_cong:
  "config s' = config s \<Longrightarrow> audioContext s' = audioContext s \<Longrightarrow>
   rawOf development s' = rawOf development s"
  by (simp add: rawOf_def rawResult_def fun_eq_iff)

lemma ticks_delivered:
  assumes "analyser s" "isAnalyzing s" "onResultCallback s = Some k"
  shows "delivered (events (snd (ticks development xs (s, b))))
         = delivered (events b)
           @ spec_emitted (smoothingFactor (config s)) (previousResult s)
               (map (rawOf development s) xs)"
  using assms
proof (induction xs arbitrary: s b)
  case Nil
  then show ?case by (simp add: ticks_def)
next
  case (Cons x xs)
  obtain s' where step:
    "performRealTimeAnalysis development (snapshotTick x) (s, b)
       = (s', emit (ResultCallback k (emittedNext s (rawOf development s x))) b)"
    "analyser s'" "isAnalyzing s'" "onResultCallback s' = Some k"
    "config s' = config s" "audioContext s' = audioContext s"
    "previousResult s' = Some (emittedNext s (rawOf development s x))"
    using tick_step [OF Cons.prems] by blast
  let ?e = "emittedNext s (rawOf development s x)"
  have "ticks development (x # xs) (s, b)
        = ticks development xs (s', emit (ResultCallback k ?e) b)"
    using step(1) by (simp add: ticks_def)
  moreover have "delivered (events (snd (ticks development xs (s', emit (ResultCallback k ?e) b))))
        = delivered (events (emit (ResultCallback k ?e) b))
          @ spec_emitted (smoothingFactor (config s')) (previousResult s')
              (map (rawOf development s') xs)"
    using Cons.IH [OF step(2,3,4)] .
  moreover have "spec_emitted (smoothingFactor (config s)) (previousResult s)
                   (map (rawOf development s) (x # xs))
                 = ?e # spec_emitted (smoothingFactor (config s)) (Some ?e)
                          (map (rawOf development s) xs)"
    by (cases "previousResult s") (simp_all add: emittedNext_def)
  ultimately show ?case
    using step(5,6,7) rawOf_cong [OF step(5,6)]
    by (simp add: emit_def delivered_append)
qed

lemma spec_emitted_discrete:
  "map isSlurred (spec_emitted f prev rs) = map isSlurred rs
   \<and> map isSpeaking (spec_emitted f prev rs) = map isSpeaking rs
   \<and> length (spec_emitted f prev rs) = length rs"
  by (induction f prev rs rule: spec_emitted.induct) (simp_all add: smoothAgainst_def)

lemma ema_Fin: "ema (Fin f) (Fin p) (Fin c) = Fin (p * f + c * (1 - f))"
  by (simp add: ema_def jsub_def)

lemma realTimePitch_short:
  "length timeDomainData \<le> 2 \<Longrightarrow> calculateRealTimePitch (Some 44100) timeDomainData = Fin 0"
proof -
  assume "length timeDomainData \<le> 2"
  then have "\<not> (\<lfloor>44100 / 400 :: real\<rfloor> < \<lfloor>44100 / 80 :: real\<rfloor>
               \<and> real_of_int \<lfloor>44100 / 400 :: real\<rfloor> < real (length timeDomainData) / 2)"
    by simp
  then have "periodLoop (byteSampleAt timeDomainData) (length timeDomainData)
               \<lfloor>44100 / 80 :: real\<rfloor> \<lfloor>44100 / 400 :: real\<rfloor> (0, Fin 0) = (0, Fin 0)"
    by (rule periodLoop_done)
  then show ?thesis
    by (simp add: calculateRealTimePitch_def)
qed

lemma features_quiet:
  "extractRealTimeFeatures (config (fst started)) (audioContext (fst started)) [] [128, 128]
   = \<lparr>f_volume = Fin 0, f_pitch = Fin 0, f_spectralCentroid = Fin 0,
      f_zeroCrossingRate = Fin 0, f_clarity = Fin 0, f_isSpeaking = False\<rparr>"
  by (simp add: extractRealTimeFeatures_def started_eq newService_def noOverrides_def
      orDefault_def realTimePitch_short calculateClarity_def byteSample_def jgt_def Let_def)

lemma features_loud:
  "extractRealTimeFeatures (config (fst started)) (audioContext (fst started)) [] [0, 0]
   = \<lparr>f_volume = Fin 1, f_pitch = Fin 0, f_spectralCentroid = Fin 0,
      f_zeroCrossingRate = Fin 0, f_clarity = Fin 0, f_isSpeaking = True\<rparr>"
  by (simp add: extractRealTimeFeatures_def started_eq newService_def noOverrides_def
      orDefault_def realTimePitch_short calculateClarity_def byteSample_def jgt_def Let_def)

lemma raw_quiet:
  "isSlurred (rawResult False (fst started) [] [128, 128] rnd now) = False
   \<and> confidence (rawResult False (fst started) [] [128, 128] rnd now) = Fin 0.1"
  by (simp add: rawResult_def features_quiet analyzeRealTimeSpeech_def realTimeConfidence_def
      realTimeSlurredRules_def jmin_def jmax_def Let_def)

lemma raw_loud:
  "isSlurred (rawResult False (fst started) [] [0, 0] rnd now) = True
   \<and> confidence (rawResult False (fst started) [] [0, 0] rnd now) = Fin 0.95"
  by (simp add: rawResult_def features_loud analyzeRealTimeSpeech_def realTimeConfidence_def
      realTimeSlurredRules_def flag_def addIf_def jgt_def jmin_def jmax_def Let_def)

text \<open>
  C5. In a run of ticks of an analyzing service, the results handed to the callback are:
  the raw result unchanged when the history is empty, and otherwise the raw result with
  confidence, volume, pitch and clarity each replaced by
  previous * smoothingFactor + current * (1 - smoothingFactor), taken against the result
  emitted just before; \<^verbatim>\<open>isSlurred\<close> and \<^verbatim>\<open>isSpeaking\<close> are those of the raw
  results. The default smoothing factor is 0.7.
\<close>

theorem C5_smoothing:
  assumes "analyser s" and "isAnalyzing s" and "onResultCallback s = Some k"
  shows "delivered (events (snd (ticks development xs (s, b))))
           = delivered (events b)
             @ spec_emitted (smoothingFactor (config s)) (previousResult s)
                 (map (rawOf development s) xs)
         \<and> map isSlurred (delivered (events (snd (ticks development xs (s, b)))))
           = map isSlurred (delivered (events b)) @ map isSlurred (map (rawOf development s) xs)
         \<and> map isSpeaking (delivered (events (snd (ticks development xs (s, b)))))
           = map isSpeaking (delivered (events b)) @ map isSpeaking (map (rawOf development s) xs)
         \<and> smoothingFactor (config (newService noOverrides)) = Fin 0.7
         \<and> ema (Fin f) (Fin p) (Fin c) = Fin (p * f + c * (1 - f))"
  using ticks_delivered [OF assms, of development xs b]
    spec_emitted_discrete [of "smoothingFactor (config s)" "previousResult s"
      "map (rawOf development s) xs"]
  by (simp add: ema_Fin newService_def noOverrides_def orDefault_def)

theorem C5_smoothing_witness:
  "analyser (fst started) \<and> isAnalyzing (fst started) \<and> onResultCallback (fst started) = Some 1
   \<and> map isSlurred (map (rawOf False (fst started)) three_ticks) = [False, True, False]
   \<and> map isSlurred (delivered (events (snd (ticks False three_ticks started))))
       = [False, True, False]
   \<and> map confidence (delivered (events (snd (ticks False three_ticks started))))
       = [Fin 0.1, Fin 0.355, Fin 0.2785]"
proof -
  have h: "analyser (fst started)" "isAnalyzing (fst started)"
    "onResultCallback (fst started) = Some 1"
    by (simp_all add: started_eq)
  have e: "delivered (events (snd started)) = []" "previousResult (fst started) = None"
    "smoothingFactor (config (fst started)) = Fin 0.7"
    by (simp_all add: started_eq previousResult_def newService_def noOverrides_def orDefault_def)
  have r: "map isSlurred (map (rawOf False (fst started)) three_ticks) = [False, True, False]"
    "map confidence (map (rawOf False (fst started)) three_ticks) = [Fin 0.1, Fin 0.95, Fin 0.1]"
    by (simp_all add: three_ticks_def rawOf_def raw_quiet raw_loud)
  have c: "map confidence (spec_emitted (Fin 0.7) None (map (rawOf False (fst started)) three_ticks))
           = [Fin 0.1, Fin 0.355, Fin 0.2785]"
    using r(2) by (simp add: three_ticks_def smoothAgainst_def ema_Fin)
  note t = C5_smoothing [OF h, where development = False and xs = three_ticks and b = "snd started"
        and f = 0 and p = 0 and c = 0]
  have d: "delivered (events (snd (ticks False three_ticks started)))
           = spec_emitted (Fin 0.7) None (map (rawOf False (fst started)) three_ticks)"
    using t [THEN conjunct1] e by simp
  have v: "map isSlurred (delivered (events (snd (ticks False three_ticks started))))
           = [False, True, False]"
    using t [THEN conjunct2, THEN conjunct1] e r(1) by simp
  have "map confidence (delivered (events (snd (ticks False three_ticks started))))
           = [Fin 0.1, Fin 0.355, Fin 0.2785]"
    unfolding d by (rule c)
  then show ?thesis
    using h r(1) v by blast
qed

end
